theory Spec2Isabelle
  imports Complex_Main "HOL-Library.Word" "HOL-Library.Sublist"
begin

section \<open>Python values and the built-ins the application uses\<close>

text \<open>
  The application (\<^verbatim>\<open>cardio_app.py\<close>, \<^verbatim>\<open>reports/pdf.py\<close>) is dynamically typed: the
  Gradio widgets hand numbers, booleans and strings to the \<^verbatim>\<open>run_*\<close> functions, which
  put them into dicts.  Values are modelled by the datatype below.  Strings are byte
  strings in UTF-8 (a code point beyond ASCII is several characters); floats are modelled
  by the reals they denote (no NaN, no infinities, no rounding); a dict is the list of
  its items in insertion order.
\<close>

datatype pyval =
    PNone
  | PBool bool
  | PInt int
  | PFloat real
  | PStr string
  | PList "pyval list"
  | PDict "(pyval \<times> pyval) list"

text \<open>
  Exceptions.  \<^verbatim>\<open>ValueError\<close> carries \<^verbatim>\<open>str(e)\<close>, the only exception text the code
  reads; it stands for the class and its subclasses, which \<^verbatim>\<open>except ValueError\<close>
  catches alike.  Of every other exception only the class is kept.
\<close>

datatype exn =
    ValueError string
  | TypeError
  | KeyError
  | OtherError string

text \<open>
  The calls made on an \<^verbatim>\<open>FPDF\<close> object, in order: the object is the list of the
  drawing commands it has received.
\<close>

datatype fpdf_op =
    AddPage
  | SetFont string string nat
  | Cell nat nat string bool
  | Ln nat

type_synonym fpdf = "fpdf_op list"

type_synonym byte = "8 word"

text \<open>
  What the source imports but \<^verbatim>\<open>src/\<close> does not contain is a field of the
  environment: the validators and calculators of \<^verbatim>\<open>validators.patient_input\<close> and
  \<^verbatim>\<open>calculators.*\<close> (pure functions of their arguments that return or raise, as the
  specification describes them), the parts of Python's built-ins that depend on floating
  point or on string escaping, the UUID generator, the clock of the logging handler and
  the serialiser of the FPDF library.
\<close>

record env =
  validate_ascvd_input :: "pyval \<Rightarrow> exn + pyval"
  ascvd :: "pyval \<Rightarrow> exn + pyval"
  validate_bp_input :: "pyval \<Rightarrow> pyval \<Rightarrow> exn + pyval"
  bp_category :: "pyval \<Rightarrow> pyval \<Rightarrow> exn + pyval"
  validate_cha2ds2vasc_input :: "pyval \<Rightarrow> exn + pyval"
  cha2ds2vasc :: "pyval \<Rightarrow> exn + pyval"
  validate_ecg_rhythm_input :: "pyval \<Rightarrow> exn + pyval"
  validate_ecg_12lead_input :: "pyval \<Rightarrow> exn + pyval"
  interpret_rhythm :: "pyval \<Rightarrow> pyval \<Rightarrow> pyval \<Rightarrow> exn + pyval"
  interpret_12lead_findings :: "pyval \<Rightarrow> exn + pyval"
  interpret_ecg_comprehensive :: "pyval \<Rightarrow> exn + pyval"
  repr_float :: "real \<Rightarrow> string"
  repr_str :: "string \<Rightarrow> string"
  format_percent1 :: "real \<Rightarrow> string"
  int_of_str :: "string \<Rightarrow> int option"
  uuid4_str :: "nat \<Rightarrow> string"
  asctime :: "nat \<Rightarrow> string"
  fpdf_output :: "fpdf \<Rightarrow> byte list"

subsection \<open>Truthiness, comparison, subscription, \<^verbatim>\<open>int()\<close>\<close>

fun py_truthy :: "pyval \<Rightarrow> bool" where
  "py_truthy PNone = False"
| "py_truthy (PBool b) = b"
| "py_truthy (PInt i) = (i \<noteq> 0)"
| "py_truthy (PFloat r) = (r \<noteq> 0)"
| "py_truthy (PStr s) = (s \<noteq> [])"
| "py_truthy (PList xs) = (xs \<noteq> [])"
| "py_truthy (PDict kvs) = (kvs \<noteq> [])"

text \<open>The number a value is in arithmetic and comparisons (\<^verbatim>\<open>bool\<close> is an \<^verbatim>\<open>int\<close>).\<close>

fun py_number :: "pyval \<Rightarrow> real option" where
  "py_number (PBool b) = Some (if b then 1 else 0)"
| "py_number (PInt i) = Some (of_int i)"
| "py_number (PFloat r) = Some r"
| "py_number _ = None"

text \<open>\<^verbatim>\<open>x >= c\<close> for a float literal \<^verbatim>\<open>c\<close>: a \<^verbatim>\<open>TypeError\<close> on a value that is no number.\<close>

definition py_ge :: "pyval \<Rightarrow> real \<Rightarrow> exn + bool" where
  "py_ge x c = (case py_number x of None \<Rightarrow> Inl TypeError | Some r \<Rightarrow> Inr (r \<ge> c))"

text \<open>\<^verbatim>\<open>format(x, ".1%")\<close>: \<^verbatim>\<open>str\<close> rejects the format code with a \<^verbatim>\<open>ValueError\<close>.\<close>

definition py_format_percent1 :: "env \<Rightarrow> pyval \<Rightarrow> exn + string" where
  "py_format_percent1 E x =
     (case py_number x of
        Some r \<Rightarrow> Inr (format_percent1 E r)
      | None \<Rightarrow> (case x of
                   PStr s \<Rightarrow> Inl (ValueError (''Unknown format code '%' for object of type 'str'' @ [CHR 0x27]))
                 | _ \<Rightarrow> Inl TypeError))"

text \<open>\<^verbatim>\<open>x[key]\<close> for a string key: only a dict can be subscripted by a string.\<close>

definition py_getitem :: "pyval \<Rightarrow> string \<Rightarrow> exn + pyval" where
  "py_getitem x key =
     (case x of
        PDict kvs \<Rightarrow> (case map_of kvs (PStr key) of None \<Rightarrow> Inl KeyError | Some v \<Rightarrow> Inr v)
      | _ \<Rightarrow> Inl TypeError)"

text \<open>
  \<^verbatim>\<open>int(x)\<close>: a bool gives 0 or 1, a float is truncated towards zero, a string is
  parsed (a \<^verbatim>\<open>ValueError\<close> when it is no integer literal), anything else is a
  \<^verbatim>\<open>TypeError\<close>.
\<close>

definition py_int :: "env \<Rightarrow> pyval \<Rightarrow> exn + int" where
  "py_int E x =
     (case x of
        PBool b \<Rightarrow> Inr (if b then 1 else 0)
      | PInt i \<Rightarrow> Inr i
      | PFloat r \<Rightarrow> Inr (if r < 0 then \<lceil>r\<rceil> else \<lfloor>r\<rfloor>)
      | PStr s \<Rightarrow> (case int_of_str E s of
                     Some i \<Rightarrow> Inr i
                   | None \<Rightarrow> Inl (ValueError (''invalid literal for int() with base 10: '' @ repr_str E s)))
      | _ \<Rightarrow> Inl TypeError)"

subsection \<open>\<^verbatim>\<open>repr\<close> and \<^verbatim>\<open>str\<close>\<close>

definition digit_char :: "nat \<Rightarrow> char" where
  "digit_char d = ''0123456789'' ! d"

fun show_nat :: "nat \<Rightarrow> string" where
  "show_nat n =
     (if n < 10 then [digit_char n] else show_nat (n div 10) @ [digit_char (n mod 10)])"

declare show_nat.simps [simp del]

definition show_int :: "int \<Rightarrow> string" where
  "show_int i = (if i < 0 then CHR ''-'' # show_nat (nat (- i)) else show_nat (nat i))"

fun join_comma :: "string list \<Rightarrow> string" where
  "join_comma [] = []"
| "join_comma [s] = s"
| "join_comma (s # t # ss) = s @ '', '' @ join_comma (t # ss)"

fun py_repr :: "env \<Rightarrow> pyval \<Rightarrow> string" where
  "py_repr E PNone = ''None''"
| "py_repr E (PBool b) = (if b then ''True'' else ''False'')"
| "py_repr E (PInt i) = show_int i"
| "py_repr E (PFloat r) = repr_float E r"
| "py_repr E (PStr s) = repr_str E s"
| "py_repr E (PList xs) = ''['' @ join_comma (map (py_repr E) xs) @ '']''"
| "py_repr E (PDict kvs) =
     ''{'' @ join_comma (map (\<lambda>(k, v). py_repr E k @ '': '' @ py_repr E v) kvs) @ ''}''"

text \<open>\<^verbatim>\<open>str(x)\<close>, which is also what \<^verbatim>\<open>{x}\<close> in an f-string renders: a string is itself.\<close>

definition py_str :: "env \<Rightarrow> pyval \<Rightarrow> string" where
  "py_str E x = (case x of PStr s \<Rightarrow> s | _ \<Rightarrow> py_repr E x)"

subsection \<open>Dict update and merging\<close>

text \<open>\<^verbatim>\<open>d[k] = v\<close>: an existing key keeps its place, a new key goes to the end.\<close>

fun dict_set :: "(pyval \<times> pyval) list \<Rightarrow> pyval \<Rightarrow> pyval \<Rightarrow> (pyval \<times> pyval) list" where
  "dict_set [] k v = [(k, v)]"
| "dict_set ((k', v') # kvs) k v =
     (if k' = k then (k', v) # kvs else (k', v') # dict_set kvs k v)"

text \<open>\<^verbatim>\<open>{**a, **b}\<close>: the items of \<^verbatim>\<open>a\<close>, then those of \<^verbatim>\<open>b\<close> set one by one.\<close>

definition dict_merge :: "(pyval \<times> pyval) list \<Rightarrow> (pyval \<times> pyval) list \<Rightarrow> (pyval \<times> pyval) list" where
  "dict_merge a b = foldl (\<lambda>d (k, v). dict_set d k v) a b"

section \<open>State, exceptions and calls\<close>

text \<open>
  A call of one of the imported functions is recorded with its arguments, so that the
  order of the calls and what they receive can be stated.
\<close>

datatype call = Call string "pyval list"

text \<open>
  The state outside the functions: the records written to \<^verbatim>\<open>usage.log\<close> (each is
  followed by a newline in the file), the number of UUIDs drawn so far, and the calls made.
\<close>

record world =
  usage_log :: "string list"
  uuid_draws :: nat
  calls :: "call list"

type_synonym 'a run = "world \<Rightarrow> (exn + 'a) \<times> world"

definition ret :: "'a \<Rightarrow> 'a run" where
  "ret x w = (Inr x, w)"

definition lift :: "exn + 'a \<Rightarrow> 'a run" where
  "lift r w = (r, w)"

definition seq :: "'a run \<Rightarrow> ('a \<Rightarrow> 'b run) \<Rightarrow> 'b run" where
  "seq m f w = (case m w of (Inl e, w') \<Rightarrow> (Inl e, w') | (Inr x, w') \<Rightarrow> f x w')"

text \<open>Calling an imported function: the call is recorded, then it returns or raises.\<close>

definition invoke :: "string \<Rightarrow> pyval list \<Rightarrow> exn + 'a \<Rightarrow> 'a run" where
  "invoke name args outcome w = (outcome, w\<lparr>calls := calls w @ [Call name args]\<rparr>)"

text \<open>\<^verbatim>\<open>try: body  except ValueError as e: handler(str(e))\<close>; anything else propagates.\<close>

definition try_except_ValueError :: "'a run \<Rightarrow> (string \<Rightarrow> 'a run) \<Rightarrow> 'a run" where
  "try_except_ValueError body handler w =
     (case body w of
        (Inl (ValueError msg), w') \<Rightarrow> handler msg w'
      | (Inl e, w') \<Rightarrow> (Inl e, w')
      | (Inr x, w') \<Rightarrow> (Inr x, w'))"

section \<open>\<^verbatim>\<open>cardio_app.py\<close>\<close>

text \<open>
  \<^verbatim>\<open>log_usage\<close>: the first eight characters of a fresh UUID, then one
  \<^verbatim>\<open>logging.info\<close> call; the handler configured by \<^verbatim>\<open>basicConfig\<close> writes
  \<^verbatim>\<open>"%(asctime)s | %(message)s"\<close>.
\<close>

definition log_usage :: "env \<Rightarrow> string \<Rightarrow> pyval \<Rightarrow> pyval \<Rightarrow> unit run" where
  "log_usage E tool_name inputs outputs w =
     (let session_id = take 8 (uuid4_str E (uuid_draws w));
          message = ''session='' @ session_id @ '' tool='' @ tool_name
                    @ '' inputs='' @ py_str E inputs @ '' outputs='' @ py_str E outputs
      in (Inr (),
          w\<lparr>uuid_draws := Suc (uuid_draws w),
            usage_log := usage_log w @ [asctime E (length (usage_log w)) @ '' | '' @ message]\<rparr>))"

text \<open>The cross mark U+274C and the subscript two U+2082, in UTF-8.\<close>

definition cross_mark :: string where
  "cross_mark = [CHR 0xE2, CHR 0x9D, CHR 0x8C]"

definition subscript_two :: string where
  "subscript_two = [CHR 0xE2, CHR 0x82, CHR 0x82]"

subsection \<open>ASCVD risk\<close>

text \<open>The conditional expression of lines 54 to 59.\<close>

definition ascvd_category :: "pyval \<Rightarrow> exn + string" where
  "ascvd_category risk =
     (case py_ge risk 0.20 of Inl e \<Rightarrow> Inl e | Inr b1 \<Rightarrow>
        if b1 then Inr ''High'' else
     (case py_ge risk 0.075 of Inl e \<Rightarrow> Inl e | Inr b2 \<Rightarrow>
        if b2 then Inr ''Intermediate'' else
     (case py_ge risk 0.05 of Inl e \<Rightarrow> Inl e | Inr b3 \<Rightarrow>
        if b3 then Inr ''Borderline'' else
        Inr ''Low'')))"

definition ascvd_data ::
  "pyval \<Rightarrow> pyval \<Rightarrow> pyval \<Rightarrow> pyval \<Rightarrow> pyval \<Rightarrow> pyval \<Rightarrow> pyval \<Rightarrow> pyval \<Rightarrow> pyval \<Rightarrow> pyval" where
  "ascvd_data age sex race total_chol hdl sbp on_htn_meds smoker diabetes =
     PDict [(PStr ''age'', age),
            (PStr ''sex'', sex),
            (PStr ''race'', race),
            (PStr ''total_cholesterol'', total_chol),
            (PStr ''hdl'', hdl),
            (PStr ''sbp'', sbp),
            (PStr ''on_htn_meds'', on_htn_meds),
            (PStr ''smoker'', smoker),
            (PStr ''diabetes'', diabetes)]"

definition run_ascvd ::
  "env \<Rightarrow> pyval \<Rightarrow> pyval \<Rightarrow> pyval \<Rightarrow> pyval \<Rightarrow> pyval \<Rightarrow> pyval \<Rightarrow> pyval \<Rightarrow> pyval \<Rightarrow> pyval \<Rightarrow> pyval
     \<Rightarrow> string run" where
  "run_ascvd E age sex race total_chol hdl sbp on_htn_meds smoker diabetes patient_id =
     (let data = ascvd_data age sex race total_chol hdl sbp on_htn_meds smoker diabetes in
      try_except_ValueError
        (seq (invoke ''validate_ascvd_input'' [data] (validate_ascvd_input E data)) (\<lambda>_.
         seq (invoke ''ascvd'' [data] (ascvd E data)) (\<lambda>risk.
         seq (lift (ascvd_category risk)) (\<lambda>category.
         seq (lift (py_format_percent1 E risk)) (\<lambda>percent.
         let result_text = ''10-Year ASCVD Risk: '' @ percent @ '' ('' @ category @ '')'' in
         seq (log_usage E ''ascvd'' data (PStr result_text)) (\<lambda>_.
         ret result_text))))))
        (\<lambda>e.
         seq (log_usage E ''ascvd'' data (PStr (''Error: '' @ e))) (\<lambda>_.
         ret (cross_mark @ '' Input Error: '' @ e))))"

subsection \<open>Blood pressure category\<close>

definition run_bp :: "env \<Rightarrow> pyval \<Rightarrow> pyval \<Rightarrow> pyval \<Rightarrow> string run" where
  "run_bp E sbp dbp patient_id =
     (let data = PDict [(PStr ''sbp'', sbp), (PStr ''dbp'', dbp)] in
      try_except_ValueError
        (seq (invoke ''validate_bp_input'' [sbp, dbp] (validate_bp_input E sbp dbp)) (\<lambda>_.
         seq (invoke ''bp_category'' [sbp, dbp] (bp_category E sbp dbp)) (\<lambda>category.
         let result_text = ''Blood Pressure Category: '' @ py_str E category in
         seq (log_usage E ''bp_category'' data (PStr result_text)) (\<lambda>_.
         ret result_text))))
        (\<lambda>e.
         seq (log_usage E ''bp_category'' data (PStr (''Error: '' @ e))) (\<lambda>_.
         ret (cross_mark @ '' Input Error: '' @ e))))"

subsection \<open>CHA2DS2-VASc\<close>

text \<open>
  The dict literal of lines 86 to 95 calls \<^verbatim>\<open>int()\<close> on the eight flags in order,
  before the \<^verbatim>\<open>try\<close>: an exception of \<^verbatim>\<open>int()\<close> is not caught.
\<close>

definition cha2ds2vasc_data ::
  "env \<Rightarrow> pyval \<Rightarrow> pyval \<Rightarrow> pyval \<Rightarrow> pyval \<Rightarrow> pyval \<Rightarrow> pyval \<Rightarrow> pyval \<Rightarrow> pyval \<Rightarrow> exn + pyval" where
  "cha2ds2vasc_data E chf htn age75 diabetes stroke vascular age65_74 female =
     (case py_int E chf of Inl e \<Rightarrow> Inl e | Inr i1 \<Rightarrow>
      case py_int E htn of Inl e \<Rightarrow> Inl e | Inr i2 \<Rightarrow>
      case py_int E age75 of Inl e \<Rightarrow> Inl e | Inr i3 \<Rightarrow>
      case py_int E diabetes of Inl e \<Rightarrow> Inl e | Inr i4 \<Rightarrow>
      case py_int E stroke of Inl e \<Rightarrow> Inl e | Inr i5 \<Rightarrow>
      case py_int E vascular of Inl e \<Rightarrow> Inl e | Inr i6 \<Rightarrow>
      case py_int E age65_74 of Inl e \<Rightarrow> Inl e | Inr i7 \<Rightarrow>
      case py_int E female of Inl e \<Rightarrow> Inl e | Inr i8 \<Rightarrow>
      Inr (PDict [(PStr ''chf'', PInt i1),
                  (PStr ''hypertension'', PInt i2),
                  (PStr ''age_ge_75'', PInt i3),
                  (PStr ''diabetes'', PInt i4),
                  (PStr ''stroke'', PInt i5),
                  (PStr ''vascular'', PInt i6),
                  (PStr ''age_65_74'', PInt i7),
                  (PStr ''female'', PInt i8)]))"

definition run_cha2ds2vasc ::
  "env \<Rightarrow> pyval \<Rightarrow> pyval \<Rightarrow> pyval \<Rightarrow> pyval \<Rightarrow> pyval \<Rightarrow> pyval \<Rightarrow> pyval \<Rightarrow> pyval \<Rightarrow> pyval
     \<Rightarrow> string run" where
  "run_cha2ds2vasc E chf htn age75 diabetes stroke vascular age65_74 female patient_id =
     seq (lift (cha2ds2vasc_data E chf htn age75 diabetes stroke vascular age65_74 female)) (\<lambda>data.
     try_except_ValueError
       (seq (invoke ''validate_cha2ds2vasc_input'' [data] (validate_cha2ds2vasc_input E data)) (\<lambda>_.
        seq (invoke ''cha2ds2vasc'' [data] (cha2ds2vasc E data)) (\<lambda>score.
        let result_text = ''CHA'' @ subscript_two @ ''DS'' @ subscript_two @ ''-VASc Score: ''
                          @ py_str E score in
        seq (log_usage E ''cha2ds2vasc'' data (PStr result_text)) (\<lambda>_.
        ret result_text))))
       (\<lambda>e.
        seq (log_usage E ''cha2ds2vasc'' data (PStr (''Error: '' @ e))) (\<lambda>_.
        ret (cross_mark @ '' Input Error: '' @ e))))"

subsection \<open>ECG interpretation\<close>

definition rhythm_data :: "pyval \<Rightarrow> pyval \<Rightarrow> pyval \<Rightarrow> (pyval \<times> pyval) list" where
  "rhythm_data rate regular p_waves_present =
     [(PStr ''rate'', rate), (PStr ''regular'', regular), (PStr ''p_waves_present'', p_waves_present)]"

text \<open>
  The dict literal of lines 111 to 121.  Its keys are distinct, so the items are listed
  in the order written; each of the two \<^verbatim>\<open>**(... if flag and leads else {})\<close> entries
  contributes one item or none.
\<close>

definition lead_data ::
  "pyval \<Rightarrow> pyval \<Rightarrow> pyval \<Rightarrow> pyval \<Rightarrow> pyval \<Rightarrow> pyval \<Rightarrow> pyval \<Rightarrow> pyval \<Rightarrow> pyval
     \<Rightarrow> (pyval \<times> pyval) list" where
  "lead_data st_elev st_elev_leads qt rr lvh q_waves q_leads t_inversion pr =
     [(PStr ''st_elevation'', st_elev)]
     @ (if py_truthy st_elev \<and> py_truthy st_elev_leads
        then [(PStr ''st_elevation_leads'', st_elev_leads)] else [])
     @ [(PStr ''qt_interval_ms'', qt),
        (PStr ''rr_interval_ms'', rr),
        (PStr ''lvh_criteria_met'', lvh),
        (PStr ''pathological_q_waves'', q_waves)]
     @ (if py_truthy q_waves \<and> py_truthy q_leads
        then [(PStr ''q_wave_leads'', q_leads)] else [])
     @ [(PStr ''t_wave_inversion'', t_inversion),
        (PStr ''pr_interval_ms'', pr)]"

definition run_ecg ::
  "env \<Rightarrow> pyval \<Rightarrow> pyval \<Rightarrow> pyval \<Rightarrow> pyval \<Rightarrow> pyval \<Rightarrow> pyval \<Rightarrow> pyval \<Rightarrow> pyval \<Rightarrow> pyval \<Rightarrow> pyval
     \<Rightarrow> pyval \<Rightarrow> pyval \<Rightarrow> pyval \<Rightarrow> string run" where
  "run_ecg E rate regular p_waves_present st_elev st_elev_leads qt rr lvh q_waves q_leads
           t_inversion pr patient_id =
     (let rhythm_d = rhythm_data rate regular p_waves_present;
          lead_d = lead_data st_elev st_elev_leads qt rr lvh q_waves q_leads t_inversion pr in
      try_except_ValueError
        (seq (invoke ''validate_ecg_rhythm_input'' [PDict rhythm_d]
                (validate_ecg_rhythm_input E (PDict rhythm_d))) (\<lambda>_.
         seq (invoke ''validate_ecg_12lead_input'' [PDict lead_d]
                (validate_ecg_12lead_input E (PDict lead_d))) (\<lambda>_.
         seq (invoke ''interpret_rhythm'' [rate, regular, p_waves_present]
                (interpret_rhythm E rate regular p_waves_present)) (\<lambda>rhythm.
         seq (invoke ''interpret_12lead_findings'' [PDict lead_d]
                (interpret_12lead_findings E (PDict lead_d))) (\<lambda>findings.
         seq (invoke ''interpret_ecg_comprehensive'' [PDict (dict_merge rhythm_d lead_d)]
                (interpret_ecg_comprehensive E (PDict (dict_merge rhythm_d lead_d)))) (\<lambda>comprehensive.
         seq (lift (py_getitem findings ''findings'')) (\<lambda>findings_text.
         let findings_text =
               (if \<not> py_truthy findings_text
                then PStr ''No 12-lead abnormalities detected'' else findings_text) in
         seq (lift (py_getitem comprehensive ''overall_risk'')) (\<lambda>overall_risk.
         let summary = ''Rhythm: '' @ py_str E rhythm @ [CHR 0x0A]
                       @ ''Findings: '' @ py_str E findings_text @ [CHR 0x0A]
                       @ ''Overall Risk: '' @ py_str E overall_risk in
         seq (log_usage E ''ecg_interpret'' (PDict (dict_merge rhythm_d lead_d)) (PStr summary)) (\<lambda>_.
         ret summary)))))))))
        (\<lambda>e.
         seq (log_usage E ''ecg_interpret'' (PDict (dict_merge rhythm_d lead_d))
                (PStr (''Error: '' @ e))) (\<lambda>_.
         ret (cross_mark @ '' Input Error: '' @ e))))"

section \<open>\<^verbatim>\<open>reports/pdf.py\<close>\<close>

text \<open>The methods of \<^verbatim>\<open>FPDF\<close> that the report uses append their command to the object.\<close>

definition FPDF :: fpdf where
  "FPDF = []"

definition add_page :: "fpdf \<Rightarrow> fpdf" where
  "add_page pdf = pdf @ [AddPage]"

definition set_font :: "string \<Rightarrow> string \<Rightarrow> nat \<Rightarrow> fpdf \<Rightarrow> fpdf" where
  "set_font family style sz pdf = pdf @ [SetFont family style sz]"

definition cell :: "nat \<Rightarrow> nat \<Rightarrow> string \<Rightarrow> bool \<Rightarrow> fpdf \<Rightarrow> fpdf" where
  "cell w h txt newline pdf = pdf @ [Cell w h txt newline]"

definition ln_fpdf :: "nat \<Rightarrow> fpdf \<Rightarrow> fpdf" where
  "ln_fpdf h pdf = pdf @ [Ln h]"

text \<open>
  \<^verbatim>\<open>base64.b64encode(bs).decode()\<close>: three bytes give four characters of the alphabet
  of RFC 4648, the last group is padded with \<^verbatim>\<open>=\<close>.  The encoder's output is ASCII, on
  which \<^verbatim>\<open>decode()\<close> is the identity.
\<close>

definition b64_alphabet :: string where
  "b64_alphabet = ''ABCDEFGHIJKLMNOPQRSTUVWXYZabcdefghijklmnopqrstuvwxyz0123456789+/''"

definition b64_char :: "nat \<Rightarrow> char" where
  "b64_char n = b64_alphabet ! (n mod 64)"

fun b64encode :: "byte list \<Rightarrow> string" where
  "b64encode [] = []"
| "b64encode [a] =
     (let n = unat a * 65536
      in [b64_char (n div 262144), b64_char (n div 4096), CHR ''='', CHR ''=''])"
| "b64encode [a, b] =
     (let n = unat a * 65536 + unat b * 256
      in [b64_char (n div 262144), b64_char (n div 4096), b64_char (n div 64), CHR ''=''])"
| "b64encode (a # b # c # rest) =
     (let n = unat a * 65536 + unat b * 256 + unat c
      in [b64_char (n div 262144), b64_char (n div 4096), b64_char (n div 64), b64_char n]
         @ b64encode rest)"

text \<open>What \<^verbatim>\<open>create_pdf_report\<close> returns: \<^verbatim>\<open>bytes\<close>, or the base64 text.\<close>

datatype report = ReportBytes "byte list" | ReportBase64 string

text \<open>
  The loop over \<^verbatim>\<open>data.items()\<close> is a fold over the items in the dict's order; the
  f-string renders key and value with \<^verbatim>\<open>str\<close>.
\<close>

definition create_pdf_report :: "env \<Rightarrow> (pyval \<times> pyval) list \<Rightarrow> string \<Rightarrow> bool \<Rightarrow> report" where
  "create_pdf_report E data title return_base64 =
     (let pdf = FPDF;
          pdf = add_page pdf;
          pdf = set_font ''Arial'' ''B'' 16 pdf;
          pdf = cell 0 10 title True pdf;
          pdf = set_font ''Arial'' [] 12 pdf;
          pdf = foldl (\<lambda>pdf (key, value).
                         cell 0 10 (py_str E key @ '': '' @ py_str E value) True (ln_fpdf 8 pdf))
                      pdf data
      in if return_base64
         then ReportBase64 (b64encode (fpdf_output E pdf))
         else ReportBytes (fpdf_output E pdf))"

section \<open>Observations used in the statements\<close>

text \<open>The texts of the cells drawn on a document, in order.\<close>

fun cell_texts :: "fpdf \<Rightarrow> string list" where
  "cell_texts [] = []"
| "cell_texts (Cell w h txt newline # ops) = txt # cell_texts ops"
| "cell_texts (_ # ops) = cell_texts ops"

text \<open>
  The record that \<^verbatim>\<open>log_usage\<close> writes in state \<open>w\<close> for a tool, its input record and
  an output text.
\<close>

definition log_record :: "env \<Rightarrow> string \<Rightarrow> pyval \<Rightarrow> string \<Rightarrow> world \<Rightarrow> string" where
  "log_record E tool_name inputs out w =
     asctime E (length (usage_log w)) @ '' | '' @ ''session='' @ take 8 (uuid4_str E (uuid_draws w))
     @ '' tool='' @ tool_name @ '' inputs='' @ py_str E inputs @ '' outputs='' @ out"

text \<open>
  The physical lines of \<^verbatim>\<open>usage.log\<close>: the handler ends every record with a newline,
  and a newline inside a record starts a line as well.
\<close>

definition record_lines :: "string \<Rightarrow> nat" where
  "record_lines r = Suc (length (filter (\<lambda>c. c = CHR 0x0A) r))"

definition log_lines :: "world \<Rightarrow> nat" where
  "log_lines w = sum_list (map record_lines (usage_log w))"

text \<open>A run whose result is the same in every state.\<close>

definition state_blind :: "'a run \<Rightarrow> bool" where
  "state_blind m = (\<forall>w1 w2. fst (m w1) = fst (m w2))"

text \<open>A run that neither logs nor draws a UUID.\<close>

definition quiet :: "'a run \<Rightarrow> bool" where
  "quiet m = (\<forall>w. usage_log (snd (m w)) = usage_log w \<and> uuid_draws (snd (m w)) = uuid_draws w)"

text \<open>
  The body of a \<^verbatim>\<open>try\<close>: it logs nothing when it raises, and exactly the record of its
  result text when it returns.
\<close>

definition body_logs :: "env \<Rightarrow> string \<Rightarrow> pyval \<Rightarrow> string run \<Rightarrow> bool" where
  "body_logs E tool_name inputs m =
     (\<forall>w. case m w of
            (Inl e, w') \<Rightarrow> usage_log w' = usage_log w \<and> uuid_draws w' = uuid_draws w
          | (Inr text, w') \<Rightarrow> usage_log w' = usage_log w @ [log_record E tool_name inputs text w])"

text \<open>
  A run that makes exactly the calls \<open>cs\<close> when it returns, and a prefix of them when it
  raises (not the empty one, unless \<open>cs\<close> is empty).
\<close>

definition traces :: "call list \<Rightarrow> 'a run \<Rightarrow> bool" where
  "traces cs m =
     (\<forall>w. case m w of
            (Inr x, w') \<Rightarrow> calls w' = calls w @ cs
          | (Inl e, w') \<Rightarrow> (\<exists>xs. prefix xs cs \<and> (cs \<noteq> [] \<longrightarrow> xs \<noteq> []) \<and> calls w' = calls w @ xs))"

section \<open>A sample environment\<close>

text \<open>
  The validators and calculators are not among the sources, so the functions above are
  run in a sample environment: validators that check one range each, calculators that
  follow the tables of the specification in the simplest way, a \<^verbatim>\<open>repr\<close> for strings
  without quotes or escapes, and fixed UUIDs and timestamps.
\<close>

definition sample_validate_ascvd_input :: "pyval \<Rightarrow> exn + pyval" where
  "sample_validate_ascvd_input d =
     (case py_getitem d ''age'' of
        Inr (PInt a) \<Rightarrow> if 40 \<le> a \<and> a \<le> 79 then Inr PNone
                       else Inl (ValueError ''age must be between 40 and 79'')
      | _ \<Rightarrow> Inl (ValueError ''age must be an integer''))"

definition sample_ascvd :: "pyval \<Rightarrow> exn + pyval" where
  "sample_ascvd d =
     (case py_getitem d ''total_cholesterol'' of Inl e \<Rightarrow> Inl e | Inr tc \<Rightarrow>
      case py_number tc of None \<Rightarrow> Inl TypeError | Some _ \<Rightarrow>
      case py_getitem d ''smoker'' of Inl e \<Rightarrow> Inl e | Inr s \<Rightarrow>
      case py_getitem d ''diabetes'' of Inl e \<Rightarrow> Inl e | Inr db \<Rightarrow>
      Inr (PFloat (if py_truthy s then (if py_truthy db then 0.20 else 0.075)
                   else (if py_truthy db then 0.05 else 0.03))))"

definition sample_validate_bp_input :: "pyval \<Rightarrow> pyval \<Rightarrow> exn + pyval" where
  "sample_validate_bp_input sbp dbp =
     (case (sbp, dbp) of
        (PInt s, PInt d) \<Rightarrow> if 0 < s \<and> 0 < d then Inr PNone
                            else Inl (ValueError ''blood pressure must be positive'')
      | _ \<Rightarrow> Inl TypeError)"

definition sample_bp_category :: "pyval \<Rightarrow> pyval \<Rightarrow> exn + pyval" where
  "sample_bp_category sbp dbp =
     (case (sbp, dbp) of
        (PInt s, PInt d) \<Rightarrow>
          Inr (PStr (if 140 \<le> s \<or> 90 \<le> d then ''Hypertension Stage 2''
                     else if 130 \<le> s \<or> 80 \<le> d then ''Hypertension Stage 1''
                     else if 120 \<le> s then ''Elevated''
                     else ''Normal''))
      | _ \<Rightarrow> Inl TypeError)"

definition sample_validate_cha2ds2vasc_input :: "pyval \<Rightarrow> exn + pyval" where
  "sample_validate_cha2ds2vasc_input d =
     (case d of
        PDict kvs \<Rightarrow> if list_all (\<lambda>(k, v). v = PInt 0 \<or> v = PInt 1) kvs then Inr PNone
                     else Inl (ValueError ''risk factors must be 0 or 1'')
      | _ \<Rightarrow> Inl TypeError)"

definition sample_flag :: "pyval \<Rightarrow> string \<Rightarrow> int" where
  "sample_flag d key = (case py_getitem d key of Inr (PInt i) \<Rightarrow> i | _ \<Rightarrow> 0)"

definition sample_cha2ds2vasc :: "pyval \<Rightarrow> exn + pyval" where
  "sample_cha2ds2vasc d =
     Inr (PInt (sample_flag d ''chf'' + sample_flag d ''hypertension''
                + 2 * sample_flag d ''age_ge_75'' + sample_flag d ''diabetes''
                + 2 * sample_flag d ''stroke'' + sample_flag d ''vascular''
                + sample_flag d ''age_65_74'' + sample_flag d ''female''))"

definition sample_validate_ecg_rhythm_input :: "pyval \<Rightarrow> exn + pyval" where
  "sample_validate_ecg_rhythm_input d =
     (case py_getitem d ''rate'' of
        Inr (PInt r) \<Rightarrow> if 20 \<le> r \<and> r \<le> 250 then Inr PNone
                       else Inl (ValueError ''rate must be between 20 and 250'')
      | _ \<Rightarrow> Inl (ValueError ''rate must be an integer''))"

definition sample_validate_ecg_12lead_input :: "pyval \<Rightarrow> exn + pyval" where
  "sample_validate_ecg_12lead_input d =
     (case py_getitem d ''qt_interval_ms'' of
        Inr (PInt q) \<Rightarrow> if 0 < q then Inr PNone
                       else Inl (ValueError ''qt_interval_ms must be positive'')
      | _ \<Rightarrow> Inl (ValueError ''qt_interval_ms must be an integer''))"

definition sample_interpret_rhythm :: "pyval \<Rightarrow> pyval \<Rightarrow> pyval \<Rightarrow> exn + pyval" where
  "sample_interpret_rhythm rate regular p_waves_present =
     (case rate of
        PInt r \<Rightarrow> Inr (PStr (if r < 60 then ''Sinus bradycardia''
                              else if r \<le> 100 then ''Normal sinus rhythm''
                              else ''Sinus tachycardia''))
      | _ \<Rightarrow> Inl TypeError)"

definition sample_interpret_12lead_findings :: "pyval \<Rightarrow> exn + pyval" where
  "sample_interpret_12lead_findings d =
     (case py_getitem d ''st_elevation'' of Inl e \<Rightarrow> Inl e | Inr st \<Rightarrow>
      Inr (PDict [(PStr ''findings'', PStr (if py_truthy st then ''ST elevation'' else []))]))"

definition sample_interpret_ecg_comprehensive :: "pyval \<Rightarrow> exn + pyval" where
  "sample_interpret_ecg_comprehensive d =
     (case py_getitem d ''st_elevation'' of Inl e \<Rightarrow> Inl e | Inr st \<Rightarrow>
      Inr (PDict [(PStr ''overall_risk'', PStr (if py_truthy st then ''high'' else ''low''))]))"

definition sample_format_percent1 :: "real \<Rightarrow> string" where
  "sample_format_percent1 r =
     (let n = nat \<lfloor>r * 1000 + 1 / 2\<rfloor>
      in show_nat (n div 10) @ ''.'' @ show_nat (n mod 10) @ ''%'')"

definition sample_int_of_str :: "string \<Rightarrow> int option" where
  "sample_int_of_str s =
     (if s \<noteq> [] \<and> list_all (\<lambda>c. (48::nat) \<le> of_char c \<and> of_char c \<le> (57::nat)) s
      then Some (foldl (\<lambda>n c. 10 * n + (int (of_char c) - 48)) 0 s)
      else None)"

definition sample_fpdf_output :: "fpdf \<Rightarrow> byte list" where
  "sample_fpdf_output pdf =
     concat (map (\<lambda>txt. map (\<lambda>c. of_nat (of_char c)) txt @ [0x0A]) (cell_texts pdf))"

definition sample_env :: env where
  "sample_env =
     \<lparr> validate_ascvd_input = sample_validate_ascvd_input,
       ascvd = sample_ascvd,
       validate_bp_input = sample_validate_bp_input,
       bp_category = sample_bp_category,
       validate_cha2ds2vasc_input = sample_validate_cha2ds2vasc_input,
       cha2ds2vasc = sample_cha2ds2vasc,
       validate_ecg_rhythm_input = sample_validate_ecg_rhythm_input,
       validate_ecg_12lead_input = sample_validate_ecg_12lead_input,
       interpret_rhythm = sample_interpret_rhythm,
       interpret_12lead_findings = sample_interpret_12lead_findings,
       interpret_ecg_comprehensive = sample_interpret_ecg_comprehensive,
       repr_float = (\<lambda>r. show_int \<lfloor>r\<rfloor> @ ''.0''),
       repr_str = (\<lambda>s. [CHR 0x27] @ s @ [CHR 0x27]),
       format_percent1 = sample_format_percent1,
       int_of_str = sample_int_of_str,
       uuid4_str = (\<lambda>n. show_nat (10000000 + n) @ ''-1111-4111-8111-111111111111''),
       asctime = (\<lambda>n. ''2025-01-01 00:00:00,000''),
       fpdf_output = sample_fpdf_output \<rparr>"

definition world0 :: world where
  "world0 = \<lparr> usage_log = [], uuid_draws = 0, calls = [] \<rparr>"

section \<open>The combinators\<close>

lemma seq_invoke_Inr [simp]:
  "seq (invoke n a (Inr x)) f w = f x (w\<lparr>calls := calls w @ [Call n a]\<rparr>)"
  by (simp add: seq_def invoke_def)

lemma seq_invoke_Inl [simp]:
  "seq (invoke n a (Inl e)) f w = (Inl e, w\<lparr>calls := calls w @ [Call n a]\<rparr>)"
  by (simp add: seq_def invoke_def)

lemma seq_lift_Inr [simp]: "seq (lift (Inr x)) f w = f x w"
  by (simp add: seq_def lift_def)

lemma seq_lift_Inl [simp]: "seq (lift (Inl e)) f w = (Inl e, w)"
  by (simp add: seq_def lift_def)

lemma seq_log_usage_ret [simp]:
  "seq (log_usage E t i (PStr out)) (\<lambda>_. ret x) w =
     (Inr x, w\<lparr>uuid_draws := Suc (uuid_draws w),
               usage_log := usage_log w @ [log_record E t i out w]\<rparr>)"
  by (simp add: seq_def log_usage_def ret_def log_record_def py_str_def Let_def)

lemma try_Inr [simp]:
  "body w = (Inr x, w') \<Longrightarrow> try_except_ValueError body handler w = (Inr x, w')"
  by (simp add: try_except_ValueError_def)

lemma try_ValueError [simp]:
  "body w = (Inl (ValueError msg), w') \<Longrightarrow> try_except_ValueError body handler w = handler msg w'"
  by (simp add: try_except_ValueError_def)

lemma try_other:
  "body w = (Inl e, w') \<Longrightarrow> \<forall>msg. e \<noteq> ValueError msg \<Longrightarrow>
   try_except_ValueError body handler w = (Inl e, w')"
  by (cases e) (simp_all add: try_except_ValueError_def)

subsection \<open>Results that do not depend on the state\<close>

lemma blind_ret: "state_blind (ret x)"
  by (simp add: state_blind_def ret_def)

lemma blind_lift: "state_blind (lift r)"
  by (simp add: state_blind_def lift_def)

lemma blind_invoke: "state_blind (invoke n a r)"
  by (simp add: state_blind_def invoke_def)

lemma blind_log_usage: "state_blind (log_usage E t i out)"
  by (simp add: state_blind_def log_usage_def Let_def)

lemma blind_seq:
  assumes "state_blind m" and "\<And>x. state_blind (f x)"
  shows "state_blind (seq m f)"
  unfolding state_blind_def
proof (intro allI)
  fix w1 w2
  from assms(1) have eq: "fst (m w1) = fst (m w2)" by (simp add: state_blind_def)
  show "fst (seq m f w1) = fst (seq m f w2)"
  proof (cases "m w1")
    case (Pair r1 v1)
    then obtain v2 where m2: "m w2 = (r1, v2)" using eq by (cases "m w2") simp
    show ?thesis
    proof (cases r1)
      case (Inl e)
      then show ?thesis using Pair m2 by (simp add: seq_def)
    next
      case (Inr x)
      from assms(2)[of x] have "fst (f x v1) = fst (f x v2)" by (simp add: state_blind_def)
      then show ?thesis using Pair m2 Inr by (simp add: seq_def)
    qed
  qed
qed

lemma blind_try:
  assumes "state_blind body" and "\<And>msg. state_blind (handler msg)"
  shows "state_blind (try_except_ValueError body handler)"
  unfolding state_blind_def
proof (intro allI)
  fix w1 w2
  from assms(1) have eq: "fst (body w1) = fst (body w2)" by (simp add: state_blind_def)
  show "fst (try_except_ValueError body handler w1) = fst (try_except_ValueError body handler w2)"
  proof (cases "body w1")
    case (Pair r1 v1)
    then obtain v2 where m2: "body w2 = (r1, v2)" using eq by (cases "body w2") simp
    show ?thesis
    proof (cases r1)
      case (Inl e)
      show ?thesis
      proof (cases e)
        case (ValueError msg)
        from assms(2)[of msg] have "fst (handler msg v1) = fst (handler msg v2)"
          by (simp add: state_blind_def)
        then show ?thesis using Pair m2 Inl ValueError by simp
      qed (use Pair m2 Inl in \<open>simp_all add: try_other\<close>)
    next
      case (Inr x)
      then show ?thesis using Pair m2 by simp
    qed
  qed
qed

lemmas blind_intros = blind_ret blind_lift blind_invoke blind_log_usage blind_seq blind_try

lemma blind_run_ascvd:
  "state_blind (run_ascvd E age sex race total_chol hdl sbp on_htn_meds smoker diabetes patient_id)"
  unfolding run_ascvd_def Let_def by (intro blind_intros)

lemma blind_run_bp: "state_blind (run_bp E sbp dbp patient_id)"
  unfolding run_bp_def Let_def by (intro blind_intros)

lemma blind_run_cha2ds2vasc:
  "state_blind (run_cha2ds2vasc E chf htn age75 diabetes stroke vascular age65_74 female patient_id)"
  unfolding run_cha2ds2vasc_def Let_def by (intro blind_intros)

lemma blind_run_ecg:
  "state_blind (run_ecg E rate regular p_waves_present st_elev st_elev_leads qt rr lvh q_waves
                  q_leads t_inversion pr patient_id)"
  unfolding run_ecg_def Let_def by (intro blind_intros)

subsection \<open>Logging\<close>

lemma quiet_ret: "quiet (ret x)"
  by (simp add: quiet_def ret_def)

lemma quiet_lift: "quiet (lift r)"
  by (simp add: quiet_def lift_def)

lemma quiet_invoke: "quiet (invoke n a r)"
  by (simp add: quiet_def invoke_def)

lemma body_logs_final: "body_logs E t i (seq (log_usage E t i (PStr out)) (\<lambda>_. ret out))"
  by (simp add: body_logs_def)

lemma body_logs_seq:
  assumes "quiet m" and "\<And>x. body_logs E t i (f x)"
  shows "body_logs E t i (seq m f)"
  unfolding body_logs_def
proof (intro allI)
  fix w
  obtain r v where mw: "m w = (r, v)" by (cases "m w")
  from assms(1) mw have q: "usage_log v = usage_log w" "uuid_draws v = uuid_draws w"
    by (auto simp: quiet_def dest: spec[of _ w])
  have same: "log_record E t i out v = log_record E t i out w" for out
    by (simp add: log_record_def q)
  show "case seq m f w of
          (Inl e, w') \<Rightarrow> usage_log w' = usage_log w \<and> uuid_draws w' = uuid_draws w
        | (Inr text, w') \<Rightarrow> usage_log w' = usage_log w @ [log_record E t i text w]"
  proof (cases r)
    case (Inl e)
    then show ?thesis using mw q by (simp add: seq_def)
  next
    case (Inr x)
    obtain r2 v2 where fx: "f x v = (r2, v2)" by (cases "f x v")
    from assms(2)[of x] fx have
      "case (r2, v2) of
          (Inl e, w') \<Rightarrow> usage_log w' = usage_log v \<and> uuid_draws w' = uuid_draws v
        | (Inr text, w') \<Rightarrow> usage_log w' = usage_log v @ [log_record E t i text v]"
      by (auto simp: body_logs_def dest: spec[of _ v])
    then show ?thesis using mw Inr q fx same by (cases r2) (simp_all add: seq_def)
  qed
qed

text \<open>
  What a \<^verbatim>\<open>try\<close> with the handler of the four functions does to the log: nothing when
  an exception leaves it, one record when it returns.
\<close>

lemma try_logs:
  fixes w :: world
  assumes b: "body_logs E t i body"
  defines "r \<equiv> try_except_ValueError body
                 (\<lambda>e. seq (log_usage E t i (PStr (''Error: '' @ e)))
                        (\<lambda>_. ret (cross_mark @ '' Input Error: '' @ e))) w"
  shows "(\<forall>e. fst r = Inl e \<longrightarrow> usage_log (snd r) = usage_log w)
       \<and> (\<forall>text. fst r = Inr text \<longrightarrow>
            usage_log (snd r) = usage_log w @ [log_record E t i text w]
          \<or> (\<exists>msg. text = cross_mark @ '' Input Error: '' @ msg
                 \<and> usage_log (snd r) = usage_log w @ [log_record E t i (''Error: '' @ msg) w]))"
proof -
  obtain res v where bw: "body w = (res, v)" by (cases "body w")
  from b bw have B: "case (res, v) of
          (Inl e, w') \<Rightarrow> usage_log w' = usage_log w \<and> uuid_draws w' = uuid_draws w
        | (Inr text, w') \<Rightarrow> usage_log w' = usage_log w @ [log_record E t i text w]"
    by (auto simp: body_logs_def dest: spec[of _ w])
  show ?thesis
  proof (cases res)
    case (Inr out)
    then show ?thesis using bw B by (simp add: r_def)
  next
    case (Inl e)
    show ?thesis
    proof (cases e)
      case (ValueError msg)
      have "log_record E t i out v = log_record E t i out w" for out
        using B Inl by (simp add: log_record_def)
      then show ?thesis using bw B Inl ValueError by (simp add: r_def)
    qed (use bw B Inl in \<open>simp_all add: r_def try_other\<close>)
  qed
qed

lemma record_lines_log_record:
  "record_lines out \<le> record_lines (log_record E tool_name inputs out w)"
  by (simp add: record_lines_def log_record_def)

subsection \<open>The calls made\<close>

lemma traces_ret: "traces [] (ret x)"
  by (simp add: traces_def ret_def)

lemma traces_log_ret: "traces [] (seq (log_usage E t i (PStr out)) (\<lambda>_. ret x))"
  by (simp add: traces_def)

lemma traces_seq_lift:
  assumes "\<And>x. traces [] (f x)"
  shows "traces [] (seq (lift r) f)"
proof (cases r)
  case (Inl e)
  then show ?thesis by (simp add: traces_def)
next
  case (Inr x)
  then show ?thesis using assms[of x] by (simp add: traces_def)
qed

lemma traces_seq_invoke:
  assumes "\<And>x. traces cs (f x)"
  shows "traces (Call n a # cs) (seq (invoke n a r) f)"
proof (cases r)
  case (Inl e)
  have "prefix [Call n a] (Call n a # cs)" by simp
  then show ?thesis using Inl by (auto simp: traces_def)
next
  case (Inr x)
  show ?thesis
    unfolding traces_def
  proof (intro allI)
    fix w :: world
    let ?v = "w\<lparr>calls := calls w @ [Call n a]\<rparr>"
    obtain r2 v2 where fx: "f x ?v = (r2, v2)" by (cases "f x ?v")
    from assms[of x] fx have F:
      "case (r2, v2) of
         (Inr y, w') \<Rightarrow> calls w' = calls ?v @ cs
       | (Inl e, w') \<Rightarrow> (\<exists>xs. prefix xs cs \<and> (cs \<noteq> [] \<longrightarrow> xs \<noteq> []) \<and> calls w' = calls ?v @ xs)"
      by (auto simp: traces_def dest: spec[of _ ?v])
    show "case seq (invoke n a r) f w of
            (Inr y, w') \<Rightarrow> calls w' = calls w @ Call n a # cs
          | (Inl e, w') \<Rightarrow> (\<exists>xs. prefix xs (Call n a # cs)
                                \<and> (Call n a # cs \<noteq> [] \<longrightarrow> xs \<noteq> []) \<and> calls w' = calls w @ xs)"
    proof (cases r2)
      case (Inr y)
      then show ?thesis using F fx \<open>r = Inr x\<close> by simp
    next
      case (Inl e)
      then obtain xs where "prefix xs cs" "calls v2 = calls ?v @ xs" using F by auto
      then have "prefix (Call n a # xs) (Call n a # cs) \<and> Call n a # xs \<noteq> []
                 \<and> calls v2 = calls w @ Call n a # xs"
        by simp
      then show ?thesis using Inl fx \<open>r = Inr x\<close> by auto
    qed
  qed
qed

lemmas traces_intros = traces_seq_invoke traces_seq_lift traces_log_ret traces_ret

text \<open>The calls of a \<^verbatim>\<open>try\<close> whose handler calls nothing.\<close>

lemma try_calls:
  assumes b: "traces cs body" and h: "\<And>msg. traces [] (handler msg)"
  shows "\<exists>xs. prefix xs cs \<and> (cs \<noteq> [] \<longrightarrow> xs \<noteq> [])
            \<and> calls (snd (try_except_ValueError body handler w)) = calls w @ xs"
proof -
  obtain res v where bw: "body w = (res, v)" by (cases "body w")
  from b bw have B:
    "case (res, v) of
       (Inr y, w') \<Rightarrow> calls w' = calls w @ cs
     | (Inl e, w') \<Rightarrow> (\<exists>xs. prefix xs cs \<and> (cs \<noteq> [] \<longrightarrow> xs \<noteq> []) \<and> calls w' = calls w @ xs)"
    by (auto simp: traces_def dest: spec[of _ w])
  show ?thesis
  proof (cases res)
    case (Inr y)
    then show ?thesis using bw B by auto
  next
    case (Inl e)
    then obtain xs where xs: "prefix xs cs" "cs \<noteq> [] \<longrightarrow> xs \<noteq> []" "calls v = calls w @ xs"
      using B by auto
    show ?thesis
    proof (cases e)
      case (ValueError msg)
      obtain r2 v2 where hv: "handler msg v = (r2, v2)" by (cases "handler msg v")
      from h[of msg] hv have "calls v2 = calls v"
        by (cases r2) (auto simp: traces_def dest: spec[of _ v])
      then show ?thesis using xs bw Inl ValueError hv by auto
    qed (use xs bw Inl in \<open>auto simp: try_other\<close>)
  qed
qed

lemma try_calls_cons:
  assumes "traces (c # cs) body" and "\<And>msg. traces [] (handler msg)"
  shows "\<exists>xs. prefix xs (c # cs) \<and> xs \<noteq> []
            \<and> calls (snd (try_except_ValueError body handler w)) = calls w @ xs"
  using try_calls [OF assms, where w = w] by simp



lemma run_cha2ds2vasc_raises:
  assumes "cha2ds2vasc_data E chf htn age75 diabetes stroke vascular age65_74 female = Inl e"
  shows "run_cha2ds2vasc E chf htn age75 diabetes stroke vascular age65_74 female patient_id w
         = (Inl e, w)"
  using assms by (simp add: run_cha2ds2vasc_def)

lemma run_cha2ds2vasc_calls:
  assumes d: "cha2ds2vasc_data E chf htn age75 diabetes stroke vascular age65_74 female = Inr data"
  shows "\<exists>xs. prefix xs [Call ''validate_cha2ds2vasc_input'' [data], Call ''cha2ds2vasc'' [data]]
           \<and> xs \<noteq> []
           \<and> calls (snd (run_cha2ds2vasc E chf htn age75 diabetes stroke vascular age65_74 female
                           patient_id w)) = calls w @ xs"
  unfolding run_cha2ds2vasc_def d seq_lift_Inr Let_def
  by (rule try_calls_cons; intro traces_intros)

lemma run_ecg_calls:
  "\<exists>xs. prefix xs
       [Call ''validate_ecg_rhythm_input'' [PDict (rhythm_data rate regular p_waves_present)],
        Call ''validate_ecg_12lead_input''
          [PDict (lead_data st_elev st_elev_leads qt rr lvh q_waves q_leads t_inversion pr)],
        Call ''interpret_rhythm'' [rate, regular, p_waves_present],
        Call ''interpret_12lead_findings''
          [PDict (lead_data st_elev st_elev_leads qt rr lvh q_waves q_leads t_inversion pr)],
        Call ''interpret_ecg_comprehensive''
          [PDict (dict_merge (rhythm_data rate regular p_waves_present)
                    (lead_data st_elev st_elev_leads qt rr lvh q_waves q_leads t_inversion pr))]]
      \<and> xs \<noteq> []
      \<and> calls (snd (run_ecg E rate regular p_waves_present st_elev st_elev_leads qt rr lvh q_waves
                      q_leads t_inversion pr patient_id w)) = calls w @ xs"
  unfolding run_ecg_def Let_def
  by (rule try_calls_cons; intro traces_intros)

subsection \<open>What each function writes to the log\<close>

lemma run_ascvd_logs:
  "(\<forall>e. fst (run_ascvd E age sex race total_chol hdl sbp on_htn_meds smoker diabetes patient_id w)
          = Inl e \<longrightarrow>
        usage_log (snd (run_ascvd E age sex race total_chol hdl sbp on_htn_meds smoker diabetes
                          patient_id w)) = usage_log w)
   \<and> (\<forall>text. fst (run_ascvd E age sex race total_chol hdl sbp on_htn_meds smoker diabetes
                     patient_id w) = Inr text \<longrightarrow>
        usage_log (snd (run_ascvd E age sex race total_chol hdl sbp on_htn_meds smoker diabetes
                          patient_id w))
          = usage_log w @ [log_record E ''ascvd''
               (ascvd_data age sex race total_chol hdl sbp on_htn_meds smoker diabetes) text w]
      \<or> (\<exists>msg. text = cross_mark @ '' Input Error: '' @ msg
             \<and> usage_log (snd (run_ascvd E age sex race total_chol hdl sbp on_htn_meds smoker
                                 diabetes patient_id w))
               = usage_log w @ [log_record E ''ascvd''
                   (ascvd_data age sex race total_chol hdl sbp on_htn_meds smoker diabetes)
                   (''Error: '' @ msg) w]))"
  unfolding run_ascvd_def Let_def
  by (rule try_logs,
      (rule body_logs_final | (rule body_logs_seq, (rule quiet_invoke | rule quiet_lift)))+)

lemma run_bp_logs:
  "(\<forall>e. fst (run_bp E sbp dbp patient_id w) = Inl e \<longrightarrow>
        usage_log (snd (run_bp E sbp dbp patient_id w)) = usage_log w)
   \<and> (\<forall>text. fst (run_bp E sbp dbp patient_id w) = Inr text \<longrightarrow>
        usage_log (snd (run_bp E sbp dbp patient_id w))
          = usage_log w @ [log_record E ''bp_category''
               (PDict [(PStr ''sbp'', sbp), (PStr ''dbp'', dbp)]) text w]
      \<or> (\<exists>msg. text = cross_mark @ '' Input Error: '' @ msg
             \<and> usage_log (snd (run_bp E sbp dbp patient_id w))
               = usage_log w @ [log_record E ''bp_category''
                   (PDict [(PStr ''sbp'', sbp), (PStr ''dbp'', dbp)]) (''Error: '' @ msg) w]))"
  unfolding run_bp_def Let_def
  by (rule try_logs,
      (rule body_logs_final | (rule body_logs_seq, (rule quiet_invoke | rule quiet_lift)))+)

lemma run_cha2ds2vasc_logs:
  assumes d: "cha2ds2vasc_data E chf htn age75 diabetes stroke vascular age65_74 female = Inr data"
  shows
  "(\<forall>e. fst (run_cha2ds2vasc E chf htn age75 diabetes stroke vascular age65_74 female patient_id w)
          = Inl e \<longrightarrow>
        usage_log (snd (run_cha2ds2vasc E chf htn age75 diabetes stroke vascular age65_74 female
                          patient_id w)) = usage_log w)
   \<and> (\<forall>text. fst (run_cha2ds2vasc E chf htn age75 diabetes stroke vascular age65_74 female
                     patient_id w) = Inr text \<longrightarrow>
        usage_log (snd (run_cha2ds2vasc E chf htn age75 diabetes stroke vascular age65_74 female
                          patient_id w))
          = usage_log w @ [log_record E ''cha2ds2vasc'' data text w]
      \<or> (\<exists>msg. text = cross_mark @ '' Input Error: '' @ msg
             \<and> usage_log (snd (run_cha2ds2vasc E chf htn age75 diabetes stroke vascular age65_74
                                 female patient_id w))
               = usage_log w @ [log_record E ''cha2ds2vasc'' data (''Error: '' @ msg) w]))"
  unfolding run_cha2ds2vasc_def d seq_lift_Inr Let_def
  by (rule try_logs,
      (rule body_logs_final | (rule body_logs_seq, (rule quiet_invoke | rule quiet_lift)))+)

lemma run_ecg_logs:
  "(\<forall>e. fst (run_ecg E rate regular p_waves_present st_elev st_elev_leads qt rr lvh q_waves
                q_leads t_inversion pr patient_id w) = Inl e \<longrightarrow>
        usage_log (snd (run_ecg E rate regular p_waves_present st_elev st_elev_leads qt rr lvh
                          q_waves q_leads t_inversion pr patient_id w)) = usage_log w)
   \<and> (\<forall>text. fst (run_ecg E rate regular p_waves_present st_elev st_elev_leads qt rr lvh q_waves
                    q_leads t_inversion pr patient_id w) = Inr text \<longrightarrow>
        usage_log (snd (run_ecg E rate regular p_waves_present st_elev st_elev_leads qt rr lvh
                          q_waves q_leads t_inversion pr patient_id w))
          = usage_log w @ [log_record E ''ecg_interpret''
               (PDict (dict_merge (rhythm_data rate regular p_waves_present)
                  (lead_data st_elev st_elev_leads qt rr lvh q_waves q_leads t_inversion pr)))
               text w]
      \<or> (\<exists>msg. text = cross_mark @ '' Input Error: '' @ msg
             \<and> usage_log (snd (run_ecg E rate regular p_waves_present st_elev st_elev_leads qt rr
                                 lvh q_waves q_leads t_inversion pr patient_id w))
               = usage_log w @ [log_record E ''ecg_interpret''
                   (PDict (dict_merge (rhythm_data rate regular p_waves_present)
                      (lead_data st_elev st_elev_leads qt rr lvh q_waves q_leads t_inversion pr)))
                   (''Error: '' @ msg) w]))"
  unfolding run_ecg_def Let_def
  by (rule try_logs,
      (rule body_logs_final | (rule body_logs_seq, (rule quiet_invoke | rule quiet_lift)))+)

subsection \<open>The outcome when a validator or a calculator raises\<close>

lemma log_record_calls [simp]:
  "log_record E t i out (w\<lparr>calls := cs\<rparr>) = log_record E t i out w"
  by (simp add: log_record_def)






lemma run_ascvd_validator_raises:
  assumes "validate_ascvd_input E
             (ascvd_data age sex race total_chol hdl sbp on_htn_meds smoker diabetes) = Inl e"
      and "\<forall>msg. e \<noteq> ValueError msg"
  shows "fst (run_ascvd E age sex race total_chol hdl sbp on_htn_meds smoker diabetes patient_id w)
         = Inl e"
  using assms by (cases e) (simp_all add: run_ascvd_def Let_def try_except_ValueError_def)

lemma run_ascvd_calculator_raises:
  assumes "validate_ascvd_input E
             (ascvd_data age sex race total_chol hdl sbp on_htn_meds smoker diabetes) = Inr u"
      and "ascvd E (ascvd_data age sex race total_chol hdl sbp on_htn_meds smoker diabetes) = Inl e"
      and "\<forall>msg. e \<noteq> ValueError msg"
  shows "fst (run_ascvd E age sex race total_chol hdl sbp on_htn_meds smoker diabetes patient_id w)
         = Inl e"
  using assms by (cases e) (simp_all add: run_ascvd_def Let_def try_except_ValueError_def)

lemma run_bp_validator_raises:
  assumes "validate_bp_input E sbp dbp = Inl e" and "\<forall>msg. e \<noteq> ValueError msg"
  shows "fst (run_bp E sbp dbp patient_id w) = Inl e"
  using assms by (cases e) (simp_all add: run_bp_def Let_def try_except_ValueError_def)

lemma run_bp_calculator_raises:
  assumes "validate_bp_input E sbp dbp = Inr u" and "bp_category E sbp dbp = Inl e"
      and "\<forall>msg. e \<noteq> ValueError msg"
  shows "fst (run_bp E sbp dbp patient_id w) = Inl e"
  using assms by (cases e) (simp_all add: run_bp_def Let_def try_except_ValueError_def)

lemma run_cha2ds2vasc_validator_raises:
  assumes "cha2ds2vasc_data E chf htn age75 diabetes stroke vascular age65_74 female = Inr data"
      and "validate_cha2ds2vasc_input E data = Inl e" and "\<forall>msg. e \<noteq> ValueError msg"
  shows "fst (run_cha2ds2vasc E chf htn age75 diabetes stroke vascular age65_74 female patient_id w)
         = Inl e"
  using assms by (cases e) (simp_all add: run_cha2ds2vasc_def Let_def try_except_ValueError_def)

lemma run_cha2ds2vasc_calculator_raises:
  assumes "cha2ds2vasc_data E chf htn age75 diabetes stroke vascular age65_74 female = Inr data"
      and "validate_cha2ds2vasc_input E data = Inr u"
      and "cha2ds2vasc E data = Inl e" and "\<forall>msg. e \<noteq> ValueError msg"
  shows "fst (run_cha2ds2vasc E chf htn age75 diabetes stroke vascular age65_74 female patient_id w)
         = Inl e"
  using assms by (cases e) (simp_all add: run_cha2ds2vasc_def Let_def try_except_ValueError_def)

lemma run_ecg_validator_raises:
  assumes "validate_ecg_rhythm_input E (PDict (rhythm_data rate regular p_waves_present)) = Inl e
           \<or> validate_ecg_rhythm_input E (PDict (rhythm_data rate regular p_waves_present)) = Inr u
             \<and> validate_ecg_12lead_input E
                 (PDict (lead_data st_elev st_elev_leads qt rr lvh q_waves q_leads t_inversion pr))
               = Inl e"
      and "\<forall>msg. e \<noteq> ValueError msg"
  shows "fst (run_ecg E rate regular p_waves_present st_elev st_elev_leads qt rr lvh q_waves q_leads
                t_inversion pr patient_id w) = Inl e"
  using assms
  by (cases e) (auto simp add: run_ecg_def Let_def try_except_ValueError_def)

lemma run_ecg_engine_raises:
  assumes "validate_ecg_rhythm_input E (PDict (rhythm_data rate regular p_waves_present)) = Inr u"
      and "validate_ecg_12lead_input E
             (PDict (lead_data st_elev st_elev_leads qt rr lvh q_waves q_leads t_inversion pr))
           = Inr u'"
      and "interpret_rhythm E rate regular p_waves_present = Inl e
           \<or> interpret_rhythm E rate regular p_waves_present = Inr rhythm
             \<and> interpret_12lead_findings E
                 (PDict (lead_data st_elev st_elev_leads qt rr lvh q_waves q_leads t_inversion pr))
               = Inl e
           \<or> interpret_rhythm E rate regular p_waves_present = Inr rhythm
             \<and> interpret_12lead_findings E
                 (PDict (lead_data st_elev st_elev_leads qt rr lvh q_waves q_leads t_inversion pr))
               = Inr findings
             \<and> interpret_ecg_comprehensive E
                 (PDict (dict_merge (rhythm_data rate regular p_waves_present)
                    (lead_data st_elev st_elev_leads qt rr lvh q_waves q_leads t_inversion pr)))
               = Inl e"
      and "\<forall>msg. e \<noteq> ValueError msg"
  shows "fst (run_ecg E rate regular p_waves_present st_elev st_elev_leads qt rr lvh q_waves q_leads
                t_inversion pr patient_id w) = Inl e"
  using assms
  by (cases e) (auto simp add: run_ecg_def Let_def try_except_ValueError_def)

subsection \<open>The records built from the arguments\<close>

lemma st_leads_key_iff:
  "PStr ''st_elevation_leads''
     \<in> fst ` set (lead_data st_elev st_elev_leads qt rr lvh q_waves q_leads t_inversion pr)
   \<longleftrightarrow> py_truthy st_elev \<and> py_truthy st_elev_leads"
  by (auto simp add: lead_data_def)

lemma q_leads_key_iff:
  "PStr ''q_wave_leads''
     \<in> fst ` set (lead_data st_elev st_elev_leads qt rr lvh q_waves q_leads t_inversion pr)
   \<longleftrightarrow> py_truthy q_waves \<and> py_truthy q_leads"
  by (auto simp add: lead_data_def)

lemma lead_data_st_leads:
  "map_of (lead_data st_elev st_elev_leads qt rr lvh q_waves q_leads t_inversion pr)
     (PStr ''st_elevation_leads'')
   = (if py_truthy st_elev \<and> py_truthy st_elev_leads then Some st_elev_leads else None)"
  by (simp add: lead_data_def)

lemma lead_data_q_leads:
  "map_of (lead_data st_elev st_elev_leads qt rr lvh q_waves q_leads t_inversion pr)
     (PStr ''q_wave_leads'')
   = (if py_truthy q_waves \<and> py_truthy q_leads then Some q_leads else None)"
  by (simp add: lead_data_def)

lemma lead_data_st_false:
  "\<not> py_truthy st_elev \<Longrightarrow>
   lead_data st_elev st_elev_leads qt rr lvh q_waves q_leads t_inversion pr
   = lead_data st_elev PNone qt rr lvh q_waves q_leads t_inversion pr"
  by (simp add: lead_data_def)

lemma lead_data_q_false:
  "\<not> py_truthy q_waves \<Longrightarrow>
   lead_data st_elev st_elev_leads qt rr lvh q_waves q_leads t_inversion pr
   = lead_data st_elev st_elev_leads qt rr lvh q_waves PNone t_inversion pr"
  by (simp add: lead_data_def)

lemma dict_merge_rhythm_lead:
  "dict_merge (rhythm_data rate regular p_waves_present)
     (lead_data st_elev st_elev_leads qt rr lvh q_waves q_leads t_inversion pr)
   = rhythm_data rate regular p_waves_present
     @ lead_data st_elev st_elev_leads qt rr lvh q_waves q_leads t_inversion pr"
  by (simp add: dict_merge_def rhythm_data_def lead_data_def)

lemma run_ecg_st_false:
  assumes "\<not> py_truthy st_elev"
  shows "run_ecg E rate regular p_waves_present st_elev st_elev_leads qt rr lvh q_waves q_leads
           t_inversion pr patient_id w
         = run_ecg E rate regular p_waves_present st_elev PNone qt rr lvh q_waves q_leads
             t_inversion pr patient_id w"
proof -
  have "lead_data st_elev st_elev_leads qt rr lvh q_waves q_leads t_inversion pr
        = lead_data st_elev PNone qt rr lvh q_waves q_leads t_inversion pr"
    using assms by (rule lead_data_st_false)
  then show ?thesis by (simp only: run_ecg_def)
qed

lemma run_ecg_q_false:
  assumes "\<not> py_truthy q_waves"
  shows "run_ecg E rate regular p_waves_present st_elev st_elev_leads qt rr lvh q_waves q_leads
           t_inversion pr patient_id w
         = run_ecg E rate regular p_waves_present st_elev st_elev_leads qt rr lvh q_waves PNone
             t_inversion pr patient_id w"
proof -
  have "lead_data st_elev st_elev_leads qt rr lvh q_waves q_leads t_inversion pr
        = lead_data st_elev st_elev_leads qt rr lvh q_waves PNone t_inversion pr"
    using assms by (rule lead_data_q_false)
  then show ?thesis by (simp only: run_ecg_def)
qed

lemma cha2ds2vasc_data_ints:
  assumes "cha2ds2vasc_data E chf htn age75 diabetes stroke vascular age65_74 female = Inr data"
  shows "\<exists>i1 i2 i3 i4 i5 i6 i7 i8.
           py_int E chf = Inr i1 \<and> py_int E htn = Inr i2 \<and> py_int E age75 = Inr i3
         \<and> py_int E diabetes = Inr i4 \<and> py_int E stroke = Inr i5 \<and> py_int E vascular = Inr i6
         \<and> py_int E age65_74 = Inr i7 \<and> py_int E female = Inr i8
         \<and> data = PDict [(PStr ''chf'', PInt i1),
                         (PStr ''hypertension'', PInt i2),
                         (PStr ''age_ge_75'', PInt i3),
                         (PStr ''diabetes'', PInt i4),
                         (PStr ''stroke'', PInt i5),
                         (PStr ''vascular'', PInt i6),
                         (PStr ''age_65_74'', PInt i7),
                         (PStr ''female'', PInt i8)]"
  using assms unfolding cha2ds2vasc_data_def
  by (cases "py_int E chf"; cases "py_int E htn"; cases "py_int E age75";
      cases "py_int E diabetes"; cases "py_int E stroke"; cases "py_int E vascular";
      cases "py_int E age65_74"; cases "py_int E female"; simp)

lemma cha2ds2vasc_data_bools:
  "cha2ds2vasc_data E (PBool b1) (PBool b2) (PBool b3) (PBool b4) (PBool b5) (PBool b6)
     (PBool b7) (PBool b8)
   = Inr (PDict [(PStr ''chf'', PInt (if b1 then 1 else 0)),
                 (PStr ''hypertension'', PInt (if b2 then 1 else 0)),
                 (PStr ''age_ge_75'', PInt (if b3 then 1 else 0)),
                 (PStr ''diabetes'', PInt (if b4 then 1 else 0)),
                 (PStr ''stroke'', PInt (if b5 then 1 else 0)),
                 (PStr ''vascular'', PInt (if b6 then 1 else 0)),
                 (PStr ''age_65_74'', PInt (if b7 then 1 else 0)),
                 (PStr ''female'', PInt (if b8 then 1 else 0))])"
  by (simp add: cha2ds2vasc_data_def py_int_def)

subsection \<open>The report\<close>




lemma b64encode_rfc4648:
  "b64encode [] = []"
  "b64encode [0x66] = ''Zg==''"
  "b64encode [0x66, 0x6F] = ''Zm8=''"
  "b64encode [0x66, 0x6F, 0x6F] = ''Zm9v''"
  "b64encode [0x66, 0x6F, 0x6F, 0x62] = ''Zm9vYg==''"
  "b64encode [0x66, 0x6F, 0x6F, 0x62, 0x61] = ''Zm9vYmE=''"
  "b64encode [0x66, 0x6F, 0x6F, 0x62, 0x61, 0x72] = ''Zm9vYmFy''"
  by (simp_all add: b64_char_def b64_alphabet_def)

subsection \<open>Runs in the sample environment\<close>

lemma sample_run_ascvd_result:
  "fst (run_ascvd sample_env (PInt 55) (PStr ''Male'') (PStr ''White'') (PInt 200) (PInt 50)
          (PInt 120) (PBool False) (PBool True) (PBool True) (PStr ''N/A'') world0)
     = Inr ''10-Year ASCVD Risk: 20.0% (High)''"
  by (simp add: run_ascvd_def Let_def try_except_ValueError_def sample_env_def
        sample_validate_ascvd_input_def sample_ascvd_def sample_format_percent1_def
        ascvd_category_def py_ge_def py_format_percent1_def py_getitem_def ascvd_data_def
        show_nat.simps digit_char_def)

lemma sample_run_bp_result:
  "fst (run_bp sample_env (PInt 120) (PInt 80) (PStr ''N/A'') world0)
     = Inr ''Blood Pressure Category: Hypertension Stage 1''"
  by (simp add: run_bp_def Let_def try_except_ValueError_def sample_env_def
        sample_validate_bp_input_def sample_bp_category_def py_str_def)

lemma sample_run_cha2ds2vasc_result:
  "fst (run_cha2ds2vasc sample_env (PBool True) (PBool False) (PBool False) (PBool True)
          (PBool False) (PBool False) (PBool False) (PBool False) (PStr ''N/A'') world0)
     = Inr (''CHA'' @ subscript_two @ ''DS'' @ subscript_two @ ''-VASc Score: 2'')"
  by (simp add: run_cha2ds2vasc_def Let_def try_except_ValueError_def sample_env_def
        sample_validate_cha2ds2vasc_input_def sample_cha2ds2vasc_def sample_flag_def
        cha2ds2vasc_data_def py_int_def py_getitem_def py_str_def show_int_def
        show_nat.simps digit_char_def)

lemma sample_run_ecg_result:
  "fst (run_ecg sample_env (PInt 75) (PBool True) (PBool True) (PBool False) (PStr [])
          (PInt 400) (PInt 800) (PBool False) (PBool False) (PStr []) (PBool False) (PInt 160)
          (PStr ''N/A'') world0)
     = Inr (''Rhythm: Normal sinus rhythm'' @ [CHR 0x0A]
            @ ''Findings: No 12-lead abnormalities detected'' @ [CHR 0x0A]
            @ ''Overall Risk: low'')"
  by (simp add: run_ecg_def Let_def try_except_ValueError_def sample_env_def
        sample_validate_ecg_rhythm_input_def sample_validate_ecg_12lead_input_def
        sample_interpret_rhythm_def sample_interpret_12lead_findings_def
        sample_interpret_ecg_comprehensive_def py_getitem_def rhythm_data_def lead_data_def
        dict_merge_def py_str_def)

lemma sample_report:
  "create_pdf_report sample_env [(PStr ''score'', PInt 2)] ''Report'' False
     = ReportBytes [0x52, 0x65, 0x70, 0x6F, 0x72, 0x74, 0x0A,
                    0x73, 0x63, 0x6F, 0x72, 0x65, 0x3A, 0x20, 0x32, 0x0A]"
  "create_pdf_report sample_env [(PStr ''score'', PInt 2)] ''Report'' True
     = ReportBase64 ''UmVwb3J0CnNjb3JlOiAyCg==''"
  by (simp_all add: create_pdf_report_def Let_def FPDF_def add_page_def set_font_def cell_def
        ln_fpdf_def sample_env_def sample_fpdf_output_def py_str_def show_int_def
        show_nat.simps digit_char_def b64_char_def b64_alphabet_def)

section \<open>The claims\<close>

subsection \<open>Risk categories\<close>



subsection \<open>Determinism of the returned value\<close>

text \<open>
  Claim C5.  Each of \<^verbatim>\<open>run_ascvd\<close>, \<^verbatim>\<open>run_bp\<close>, \<^verbatim>\<open>run_cha2ds2vasc\<close> and
  \<^verbatim>\<open>run_ecg\<close> is deterministic in what it returns: called with the same arguments in
  any two states (any contents of the log, any number of UUIDs drawn, any earlier calls),
  it returns the same string, or raises the same exception; this covers the success path
  and the validation-failure path.  The log and the UUID never flow into the result.
\<close>

theorem run_result_deterministic:
  "fst (run_ascvd E age sex race total_chol hdl sbp on_htn_meds smoker diabetes patient_id w1)
     = fst (run_ascvd E age sex race total_chol hdl sbp on_htn_meds smoker diabetes patient_id w2)
   \<and> fst (run_bp E sbp dbp patient_id w1) = fst (run_bp E sbp dbp patient_id w2)
   \<and> fst (run_cha2ds2vasc E chf htn age75 diabetes stroke vascular age65_74 female patient_id w1)
     = fst (run_cha2ds2vasc E chf htn age75 diabetes stroke vascular age65_74 female patient_id w2)
   \<and> fst (run_ecg E rate regular p_waves_present st_elev st_elev_leads qt rr lvh q_waves
             q_leads t_inversion pr patient_id w1)
     = fst (run_ecg E rate regular p_waves_present st_elev st_elev_leads qt rr lvh q_waves
             q_leads t_inversion pr patient_id w2)"
  using blind_run_ascvd [of E age sex race total_chol hdl sbp on_htn_meds smoker diabetes patient_id]
        blind_run_bp [of E sbp dbp patient_id]
        blind_run_cha2ds2vasc [of E chf htn age75 diabetes stroke vascular age65_74 female patient_id]
        blind_run_ecg [of E rate regular p_waves_present st_elev st_elev_leads qt rr lvh q_waves
                         q_leads t_inversion pr patient_id]
  unfolding state_blind_def by blast

subsection \<open>Validation comes first\<close>



subsection \<open>Lead lists in the ECG record\<close>

text \<open>
  Claim C3.  In \<^verbatim>\<open>run_ecg\<close> the record of the twelve leads has the key
  \<^verbatim>\<open>st_elevation_leads\<close> only when \<^verbatim>\<open>st_elev\<close> is true, and the key
  \<^verbatim>\<open>q_wave_leads\<close> only when \<^verbatim>\<open>q_waves\<close> is true.  With a false flag the record is
  the one built without any lead data, so the whole call (result, log and what the
  validator and the engine are given) is the same as with no lead data: stray leads never
  reach the engine and cannot cause an error.  The validator of the leads and the
  interpretation functions receive this record, or its merge with the rhythm record,
  which is the rhythm items followed by the lead items.
\<close>

theorem stray_leads_dropped:
  "(PStr ''st_elevation_leads''
      \<in> fst ` set (lead_data st_elev st_elev_leads qt rr lvh q_waves q_leads t_inversion pr)
      \<longrightarrow> py_truthy st_elev)
   \<and> (PStr ''q_wave_leads''
      \<in> fst ` set (lead_data st_elev st_elev_leads qt rr lvh q_waves q_leads t_inversion pr)
      \<longrightarrow> py_truthy q_waves)
   \<and> (\<not> py_truthy st_elev \<longrightarrow>
        lead_data st_elev st_elev_leads qt rr lvh q_waves q_leads t_inversion pr
          = lead_data st_elev PNone qt rr lvh q_waves q_leads t_inversion pr
      \<and> run_ecg E rate regular p_waves_present st_elev st_elev_leads qt rr lvh q_waves q_leads
          t_inversion pr patient_id w
          = run_ecg E rate regular p_waves_present st_elev PNone qt rr lvh q_waves q_leads
              t_inversion pr patient_id w)
   \<and> (\<not> py_truthy q_waves \<longrightarrow>
        lead_data st_elev st_elev_leads qt rr lvh q_waves q_leads t_inversion pr
          = lead_data st_elev st_elev_leads qt rr lvh q_waves PNone t_inversion pr
      \<and> run_ecg E rate regular p_waves_present st_elev st_elev_leads qt rr lvh q_waves q_leads
          t_inversion pr patient_id w
          = run_ecg E rate regular p_waves_present st_elev st_elev_leads qt rr lvh q_waves PNone
              t_inversion pr patient_id w)
   \<and> (\<exists>xs. prefix xs
          [Call ''validate_ecg_rhythm_input'' [PDict (rhythm_data rate regular p_waves_present)],
           Call ''validate_ecg_12lead_input''
             [PDict (lead_data st_elev st_elev_leads qt rr lvh q_waves q_leads t_inversion pr)],
           Call ''interpret_rhythm'' [rate, regular, p_waves_present],
           Call ''interpret_12lead_findings''
             [PDict (lead_data st_elev st_elev_leads qt rr lvh q_waves q_leads t_inversion pr)],
           Call ''interpret_ecg_comprehensive''
             [PDict (dict_merge (rhythm_data rate regular p_waves_present)
                       (lead_data st_elev st_elev_leads qt rr lvh q_waves q_leads t_inversion pr))]]
        \<and> xs \<noteq> []
        \<and> calls (snd (run_ecg E rate regular p_waves_present st_elev st_elev_leads qt rr lvh
                        q_waves q_leads t_inversion pr patient_id w)) = calls w @ xs)
   \<and> dict_merge (rhythm_data rate regular p_waves_present)
         (lead_data st_elev st_elev_leads qt rr lvh q_waves q_leads t_inversion pr)
       = rhythm_data rate regular p_waves_present
         @ lead_data st_elev st_elev_leads qt rr lvh q_waves q_leads t_inversion pr"
proof (intro conjI impI)
  show "\<exists>xs. prefix xs
          [Call ''validate_ecg_rhythm_input'' [PDict (rhythm_data rate regular p_waves_present)],
           Call ''validate_ecg_12lead_input''
             [PDict (lead_data st_elev st_elev_leads qt rr lvh q_waves q_leads t_inversion pr)],
           Call ''interpret_rhythm'' [rate, regular, p_waves_present],
           Call ''interpret_12lead_findings''
             [PDict (lead_data st_elev st_elev_leads qt rr lvh q_waves q_leads t_inversion pr)],
           Call ''interpret_ecg_comprehensive''
             [PDict (dict_merge (rhythm_data rate regular p_waves_present)
                       (lead_data st_elev st_elev_leads qt rr lvh q_waves q_leads t_inversion pr))]]
        \<and> xs \<noteq> []
        \<and> calls (snd (run_ecg E rate regular p_waves_present st_elev st_elev_leads qt rr lvh
                        q_waves q_leads t_inversion pr patient_id w)) = calls w @ xs"
    by (rule run_ecg_calls)
qed (erule lead_data_st_false | erule run_ecg_st_false | erule lead_data_q_false
     | erule run_ecg_q_false | rule dict_merge_rhythm_lead
     | (simp add: st_leads_key_iff q_leads_key_iff; fail))+

text \<open>
  In the sample environment: with a false flag, leads typed into its text box change
  nothing; with a true flag they are in the record.
\<close>

theorem stray_leads_dropped_witness:
  "lead_data (PBool False) (PStr ''V1,V2'') (PInt 400) (PInt 800) (PBool False) (PBool False)
     (PStr ''II,III'') (PBool False) (PInt 160)
   = [(PStr ''st_elevation'', PBool False), (PStr ''qt_interval_ms'', PInt 400),
      (PStr ''rr_interval_ms'', PInt 800), (PStr ''lvh_criteria_met'', PBool False),
      (PStr ''pathological_q_waves'', PBool False), (PStr ''t_wave_inversion'', PBool False),
      (PStr ''pr_interval_ms'', PInt 160)]
   \<and> run_ecg sample_env (PInt 75) (PBool True) (PBool True) (PBool False) (PStr ''V1,V2'')
       (PInt 400) (PInt 800) (PBool False) (PBool False) (PStr ''II,III'') (PBool False)
       (PInt 160) (PStr ''N/A'') world0
     = run_ecg sample_env (PInt 75) (PBool True) (PBool True) (PBool False) PNone
       (PInt 400) (PInt 800) (PBool False) (PBool False) (PStr ''II,III'') (PBool False)
       (PInt 160) (PStr ''N/A'') world0
   \<and> run_ecg sample_env (PInt 75) (PBool True) (PBool True) (PBool True) (PStr ''V1,V2'')
       (PInt 400) (PInt 800) (PBool False) (PBool False) (PStr ''II,III'') (PBool False)
       (PInt 160) (PStr ''N/A'') world0
     = run_ecg sample_env (PInt 75) (PBool True) (PBool True) (PBool True) (PStr ''V1,V2'')
       (PInt 400) (PInt 800) (PBool False) (PBool False) PNone (PBool False)
       (PInt 160) (PStr ''N/A'') world0
   \<and> (PStr ''st_elevation_leads''
        \<in> fst ` set (lead_data (PBool True) (PStr ''V1,V2'') (PInt 400) (PInt 800)
                           (PBool False) (PBool False) (PStr ''II,III'') (PBool False) (PInt 160))
      \<and> py_truthy (PBool True))"
  using stray_leads_dropped [where E = sample_env and rate = "PInt 75" and regular = "PBool True"
          and p_waves_present = "PBool True" and st_elev = "PBool False"
          and st_elev_leads = "PStr ''V1,V2''" and qt = "PInt 400" and rr = "PInt 800"
          and lvh = "PBool False" and q_waves = "PBool False" and q_leads = "PStr ''II,III''"
          and t_inversion = "PBool False" and pr = "PInt 160" and patient_id = "PStr ''N/A''"
          and w = world0]
        stray_leads_dropped [where E = sample_env and rate = "PInt 75" and regular = "PBool True"
          and p_waves_present = "PBool True" and st_elev = "PBool True"
          and st_elev_leads = "PStr ''V1,V2''" and qt = "PInt 400" and rr = "PInt 800"
          and lvh = "PBool False" and q_waves = "PBool False" and q_leads = "PStr ''II,III''"
          and t_inversion = "PBool False" and pr = "PInt 160" and patient_id = "PStr ''N/A''"
          and w = world0]
  by (simp add: lead_data_def)

text \<open>
  Claim C9.  A lead-list key is in the record of the twelve leads if and only if its flag
  is true and the lead list supplied is non-empty (truthy).  A value stored under such a
  key is the list supplied and is never empty; with a true flag and an empty text box the
  key is absent.  As the validator and the engine are called with this record (or its
  merge with the rhythm record), they never receive an empty lead list.
\<close>

theorem lead_list_present_iff:
  "(PStr ''st_elevation_leads''
      \<in> fst ` set (lead_data st_elev st_elev_leads qt rr lvh q_waves q_leads t_inversion pr)
      \<longleftrightarrow> py_truthy st_elev \<and> py_truthy st_elev_leads)
   \<and> (PStr ''q_wave_leads''
      \<in> fst ` set (lead_data st_elev st_elev_leads qt rr lvh q_waves q_leads t_inversion pr)
      \<longleftrightarrow> py_truthy q_waves \<and> py_truthy q_leads)
   \<and> (\<forall>v. map_of (lead_data st_elev st_elev_leads qt rr lvh q_waves q_leads t_inversion pr)
              (PStr ''st_elevation_leads'') = Some v
          \<longrightarrow> v = st_elev_leads \<and> py_truthy v \<and> v \<noteq> PStr [] \<and> v \<noteq> PList [])
   \<and> (\<forall>v. map_of (lead_data st_elev st_elev_leads qt rr lvh q_waves q_leads t_inversion pr)
              (PStr ''q_wave_leads'') = Some v
          \<longrightarrow> v = q_leads \<and> py_truthy v \<and> v \<noteq> PStr [] \<and> v \<noteq> PList [])
   \<and> PStr ''st_elevation_leads''
      \<notin> fst ` set (lead_data st_elev (PStr []) qt rr lvh q_waves q_leads t_inversion pr)
   \<and> PStr ''q_wave_leads''
      \<notin> fst ` set (lead_data st_elev st_elev_leads qt rr lvh q_waves (PStr []) t_inversion pr)
   \<and> (\<exists>xs. prefix xs
          [Call ''validate_ecg_rhythm_input'' [PDict (rhythm_data rate regular p_waves_present)],
           Call ''validate_ecg_12lead_input''
             [PDict (lead_data st_elev st_elev_leads qt rr lvh q_waves q_leads t_inversion pr)],
           Call ''interpret_rhythm'' [rate, regular, p_waves_present],
           Call ''interpret_12lead_findings''
             [PDict (lead_data st_elev st_elev_leads qt rr lvh q_waves q_leads t_inversion pr)],
           Call ''interpret_ecg_comprehensive''
             [PDict (dict_merge (rhythm_data rate regular p_waves_present)
                       (lead_data st_elev st_elev_leads qt rr lvh q_waves q_leads t_inversion pr))]]
        \<and> xs \<noteq> []
        \<and> calls (snd (run_ecg E rate regular p_waves_present st_elev st_elev_leads qt rr lvh
                        q_waves q_leads t_inversion pr patient_id w)) = calls w @ xs)"
proof (intro conjI)
  show "\<exists>xs. prefix xs
          [Call ''validate_ecg_rhythm_input'' [PDict (rhythm_data rate regular p_waves_present)],
           Call ''validate_ecg_12lead_input''
             [PDict (lead_data st_elev st_elev_leads qt rr lvh q_waves q_leads t_inversion pr)],
           Call ''interpret_rhythm'' [rate, regular, p_waves_present],
           Call ''interpret_12lead_findings''
             [PDict (lead_data st_elev st_elev_leads qt rr lvh q_waves q_leads t_inversion pr)],
           Call ''interpret_ecg_comprehensive''
             [PDict (dict_merge (rhythm_data rate regular p_waves_present)
                       (lead_data st_elev st_elev_leads qt rr lvh q_waves q_leads t_inversion pr))]]
        \<and> xs \<noteq> []
        \<and> calls (snd (run_ecg E rate regular p_waves_present st_elev st_elev_leads qt rr lvh
                        q_waves q_leads t_inversion pr patient_id w)) = calls w @ xs"
    by (rule run_ecg_calls)
  show "\<forall>v. map_of (lead_data st_elev st_elev_leads qt rr lvh q_waves q_leads t_inversion pr)
              (PStr ''st_elevation_leads'') = Some v
          \<longrightarrow> v = st_elev_leads \<and> py_truthy v \<and> v \<noteq> PStr [] \<and> v \<noteq> PList []"
    unfolding lead_data_st_leads by auto
  show "\<forall>v. map_of (lead_data st_elev st_elev_leads qt rr lvh q_waves q_leads t_inversion pr)
              (PStr ''q_wave_leads'') = Some v
          \<longrightarrow> v = q_leads \<and> py_truthy v \<and> v \<noteq> PStr [] \<and> v \<noteq> PList []"
    unfolding lead_data_q_leads by auto
qed (simp_all add: st_leads_key_iff q_leads_key_iff)

text \<open>
  With ST elevation ticked: leads \<^verbatim>\<open>V1,V2\<close> are stored, an empty text box leaves the key
  out.
\<close>

theorem lead_list_present_iff_witness:
  "map_of (lead_data (PBool True) (PStr ''V1,V2'') (PInt 400) (PInt 800) (PBool False)
             (PBool False) (PStr []) (PBool False) (PInt 160)) (PStr ''st_elevation_leads'')
     = Some (PStr ''V1,V2'')
   \<and> py_truthy (PStr ''V1,V2'')
   \<and> PStr ''st_elevation_leads''
      \<in> fst ` set (lead_data (PBool True) (PStr ''V1,V2'') (PInt 400) (PInt 800) (PBool False)
                     (PBool False) (PStr []) (PBool False) (PInt 160))
   \<and> PStr ''st_elevation_leads''
      \<notin> fst ` set (lead_data (PBool True) (PStr []) (PInt 400) (PInt 800) (PBool False)
                     (PBool False) (PStr []) (PBool False) (PInt 160))"
  using lead_list_present_iff [where E = sample_env and rate = "PInt 75" and regular = "PBool True"
          and p_waves_present = "PBool True" and st_elev = "PBool True"
          and st_elev_leads = "PStr ''V1,V2''" and qt = "PInt 400" and rr = "PInt 800"
          and lvh = "PBool False" and q_waves = "PBool False" and q_leads = "PStr []"
          and t_inversion = "PBool False" and pr = "PInt 160" and patient_id = "PStr ''N/A''"
          and w = world0]
  by (simp add: lead_data_def)

subsection \<open>The CHA2DS2-VASc record\<close>

text \<open>
  Claim C10.  \<^verbatim>\<open>run_cha2ds2vasc\<close> applies \<^verbatim>\<open>int()\<close> to each of the eight flags before
  anything else.  The validator and the scorer are called only when all eight conversions
  have succeeded, and then with a record whose eight values are the integers that
  \<^verbatim>\<open>int()\<close> returned; for check-box (boolean) inputs every value is 0 or 1.  When a
  conversion raises, neither is called.
\<close>

theorem cha2ds2vasc_record_is_integers:
  "(\<forall>data. cha2ds2vasc_data E chf htn age75_flag diabetes stroke vascular age65_74_flag female
             = Inr data \<longrightarrow>
       (\<exists>i1 i2 i3 i4 i5 i6 i7 i8.
           py_int E chf = Inr i1 \<and> py_int E htn = Inr i2 \<and> py_int E age75_flag = Inr i3
         \<and> py_int E diabetes = Inr i4 \<and> py_int E stroke = Inr i5 \<and> py_int E vascular = Inr i6
         \<and> py_int E age65_74_flag = Inr i7 \<and> py_int E female = Inr i8
         \<and> data = PDict [(PStr ''chf'', PInt i1),
                         (PStr ''hypertension'', PInt i2),
                         (PStr ''age_ge_75'', PInt i3),
                         (PStr ''diabetes'', PInt i4),
                         (PStr ''stroke'', PInt i5),
                         (PStr ''vascular'', PInt i6),
                         (PStr ''age_65_74'', PInt i7),
                         (PStr ''female'', PInt i8)])
     \<and> (\<exists>xs. prefix xs [Call ''validate_cha2ds2vasc_input'' [data], Call ''cha2ds2vasc'' [data]]
           \<and> xs \<noteq> []
           \<and> calls (snd (run_cha2ds2vasc E chf htn age75_flag diabetes stroke vascular
                           age65_74_flag female patient_id w)) = calls w @ xs))
   \<and> (\<forall>e. cha2ds2vasc_data E chf htn age75_flag diabetes stroke vascular age65_74_flag female
          = Inl e \<longrightarrow>
        run_cha2ds2vasc E chf htn age75_flag diabetes stroke vascular age65_74_flag female
          patient_id w = (Inl e, w))
   \<and> cha2ds2vasc_data E (PBool b1) (PBool b2) (PBool b3) (PBool b4) (PBool b5) (PBool b6)
        (PBool b7) (PBool b8)
      = Inr (PDict [(PStr ''chf'', PInt (if b1 then 1 else 0)),
                    (PStr ''hypertension'', PInt (if b2 then 1 else 0)),
                    (PStr ''age_ge_75'', PInt (if b3 then 1 else 0)),
                    (PStr ''diabetes'', PInt (if b4 then 1 else 0)),
                    (PStr ''stroke'', PInt (if b5 then 1 else 0)),
                    (PStr ''vascular'', PInt (if b6 then 1 else 0)),
                    (PStr ''age_65_74'', PInt (if b7 then 1 else 0)),
                    (PStr ''female'', PInt (if b8 then 1 else 0))])"
  by (intro conjI allI impI; (erule cha2ds2vasc_data_ints | erule run_cha2ds2vasc_calls
        | erule run_cha2ds2vasc_raises | rule cha2ds2vasc_data_bools))

text \<open>
  In the sample environment: for the check boxes CHF and diabetes ticked, the record holds
  1 for them and 0 elsewhere; for \<^verbatim>\<open>None\<close> in place of a flag, \<^verbatim>\<open>int()\<close> raises a
  \<^verbatim>\<open>TypeError\<close>, which leaves the function before any call.
\<close>

theorem cha2ds2vasc_record_is_integers_witness:
  "(\<exists>xs. prefix xs
       [Call ''validate_cha2ds2vasc_input''
          [PDict [(PStr ''chf'', PInt 1), (PStr ''hypertension'', PInt 0),
                  (PStr ''age_ge_75'', PInt 0), (PStr ''diabetes'', PInt 1),
                  (PStr ''stroke'', PInt 0), (PStr ''vascular'', PInt 0),
                  (PStr ''age_65_74'', PInt 0), (PStr ''female'', PInt 0)]],
        Call ''cha2ds2vasc''
          [PDict [(PStr ''chf'', PInt 1), (PStr ''hypertension'', PInt 0),
                  (PStr ''age_ge_75'', PInt 0), (PStr ''diabetes'', PInt 1),
                  (PStr ''stroke'', PInt 0), (PStr ''vascular'', PInt 0),
                  (PStr ''age_65_74'', PInt 0), (PStr ''female'', PInt 0)]]]
     \<and> xs \<noteq> []
     \<and> calls (snd (run_cha2ds2vasc sample_env (PBool True) (PBool False) (PBool False)
                     (PBool True) (PBool False) (PBool False) (PBool False) (PBool False)
                     (PStr ''N/A'') world0)) = calls world0 @ xs)
   \<and> run_cha2ds2vasc sample_env PNone (PBool False) (PBool False)
        (PBool True) (PBool False) (PBool False) (PBool False) (PBool False)
        (PStr ''N/A'') world0 = (Inl TypeError, world0)"
  using cha2ds2vasc_record_is_integers [where E = sample_env and chf = "PBool True"
          and htn = "PBool False" and age75_flag = "PBool False" and diabetes = "PBool True"
          and stroke = "PBool False" and vascular = "PBool False"
          and age65_74_flag = "PBool False" and female = "PBool False"
          and patient_id = "PStr ''N/A''" and w = world0]
        cha2ds2vasc_record_is_integers [where E = sample_env and chf = PNone
          and htn = "PBool False" and age75_flag = "PBool False" and diabetes = "PBool True"
          and stroke = "PBool False" and vascular = "PBool False"
          and age65_74_flag = "PBool False" and female = "PBool False"
          and patient_id = "PStr ''N/A''" and w = world0]
  by (simp add: cha2ds2vasc_data_def py_int_def)

subsection \<open>Exceptions other than \<^verbatim>\<open>ValueError\<close>\<close>

text \<open>
  Claim C4 says that a fault of a validator or calculator that is no \<^verbatim>\<open>ValueError\<close> is
  returned by the \<^verbatim>\<open>run_*\<close> function as a failure text and logged.  The functions have
  a single handler, \<^verbatim>\<open>except ValueError\<close>.  In the sample environment, a record with
  \<^verbatim>\<open>None\<close> for the cholesterol passes validation and makes the calculator raise a
  \<^verbatim>\<open>TypeError\<close>: \<^verbatim>\<open>run_ascvd\<close> raises it and the log stays empty.
\<close>

theorem unexpected_fault_counterexample:
  "validate_ascvd_input sample_env
     (ascvd_data (PInt 55) (PStr ''Male'') (PStr ''White'') PNone (PInt 50) (PInt 120)
        (PBool False) (PBool True) (PBool True)) = Inr PNone
   \<and> ascvd sample_env
     (ascvd_data (PInt 55) (PStr ''Male'') (PStr ''White'') PNone (PInt 50) (PInt 120)
        (PBool False) (PBool True) (PBool True)) = Inl TypeError
   \<and> fst (run_ascvd sample_env (PInt 55) (PStr ''Male'') (PStr ''White'') PNone (PInt 50)
          (PInt 120) (PBool False) (PBool True) (PBool True) (PStr ''N/A'') world0)
     = Inl TypeError
   \<and> usage_log (snd (run_ascvd sample_env (PInt 55) (PStr ''Male'') (PStr ''White'') PNone
          (PInt 50) (PInt 120) (PBool False) (PBool True) (PBool True) (PStr ''N/A'') world0))
     = []"
  by (simp add: run_ascvd_def Let_def try_except_ValueError_def sample_env_def
        sample_validate_ascvd_input_def sample_ascvd_def py_getitem_def ascvd_data_def world0_def)

text \<open>
  Claim C4 as amended.  When a validator or a calculator raises an exception that is no
  \<^verbatim>\<open>ValueError\<close>, the \<^verbatim>\<open>run_*\<close> function raises the same exception to its caller
  and writes nothing to the log; only \<^verbatim>\<open>ValueError\<close> is caught, logged and returned as
  text.
\<close>

theorem unexpected_fault_propagates:
  "(\<forall>e u. (\<forall>msg. e \<noteq> ValueError msg)
        \<and> (validate_ascvd_input E
              (ascvd_data age sex race total_chol hdl sbp on_htn_meds smoker diabetes) = Inl e
           \<or> validate_ascvd_input E
              (ascvd_data age sex race total_chol hdl sbp on_htn_meds smoker diabetes) = Inr u
             \<and> ascvd E (ascvd_data age sex race total_chol hdl sbp on_htn_meds smoker diabetes)
               = Inl e) \<longrightarrow>
        fst (run_ascvd E age sex race total_chol hdl sbp on_htn_meds smoker diabetes patient_id w)
          = Inl e
      \<and> usage_log (snd (run_ascvd E age sex race total_chol hdl sbp on_htn_meds smoker diabetes
                          patient_id w)) = usage_log w)
   \<and> (\<forall>e u. (\<forall>msg. e \<noteq> ValueError msg)
        \<and> (validate_bp_input E sbp dbp = Inl e
           \<or> validate_bp_input E sbp dbp = Inr u \<and> bp_category E sbp dbp = Inl e) \<longrightarrow>
        fst (run_bp E sbp dbp patient_id w) = Inl e
      \<and> usage_log (snd (run_bp E sbp dbp patient_id w)) = usage_log w)
   \<and> (\<forall>e u data. (\<forall>msg. e \<noteq> ValueError msg)
        \<and> cha2ds2vasc_data E chf htn age75_flag diabetes stroke vascular age65_74_flag female
          = Inr data
        \<and> (validate_cha2ds2vasc_input E data = Inl e
           \<or> validate_cha2ds2vasc_input E data = Inr u \<and> cha2ds2vasc E data = Inl e) \<longrightarrow>
        fst (run_cha2ds2vasc E chf htn age75_flag diabetes stroke vascular age65_74_flag female
               patient_id w) = Inl e
      \<and> usage_log (snd (run_cha2ds2vasc E chf htn age75_flag diabetes stroke vascular
                          age65_74_flag female patient_id w)) = usage_log w)
   \<and> (\<forall>e u. (\<forall>msg. e \<noteq> ValueError msg)
        \<and> (validate_ecg_rhythm_input E (PDict (rhythm_data rate regular p_waves_present)) = Inl e
           \<or> validate_ecg_rhythm_input E (PDict (rhythm_data rate regular p_waves_present)) = Inr u
             \<and> validate_ecg_12lead_input E
                 (PDict (lead_data st_elev st_elev_leads qt rr lvh q_waves q_leads t_inversion pr))
               = Inl e) \<longrightarrow>
        fst (run_ecg E rate regular p_waves_present st_elev st_elev_leads qt rr lvh q_waves
               q_leads t_inversion pr patient_id w) = Inl e
      \<and> usage_log (snd (run_ecg E rate regular p_waves_present st_elev st_elev_leads qt rr lvh
                          q_waves q_leads t_inversion pr patient_id w)) = usage_log w)
   \<and> (\<forall>e u u' rhythm findings. (\<forall>msg. e \<noteq> ValueError msg)
        \<and> validate_ecg_rhythm_input E (PDict (rhythm_data rate regular p_waves_present)) = Inr u
        \<and> validate_ecg_12lead_input E
            (PDict (lead_data st_elev st_elev_leads qt rr lvh q_waves q_leads t_inversion pr))
          = Inr u'
        \<and> (interpret_rhythm E rate regular p_waves_present = Inl e
           \<or> interpret_rhythm E rate regular p_waves_present = Inr rhythm
             \<and> interpret_12lead_findings E
                 (PDict (lead_data st_elev st_elev_leads qt rr lvh q_waves q_leads t_inversion pr))
               = Inl e
           \<or> interpret_rhythm E rate regular p_waves_present = Inr rhythm
             \<and> interpret_12lead_findings E
                 (PDict (lead_data st_elev st_elev_leads qt rr lvh q_waves q_leads t_inversion pr))
               = Inr findings
             \<and> interpret_ecg_comprehensive E
                 (PDict (dict_merge (rhythm_data rate regular p_waves_present)
                    (lead_data st_elev st_elev_leads qt rr lvh q_waves q_leads t_inversion pr)))
               = Inl e) \<longrightarrow>
        fst (run_ecg E rate regular p_waves_present st_elev st_elev_leads qt rr lvh q_waves
               q_leads t_inversion pr patient_id w) = Inl e
      \<and> usage_log (snd (run_ecg E rate regular p_waves_present st_elev st_elev_leads qt rr lvh
                          q_waves q_leads t_inversion pr patient_id w)) = usage_log w)"
proof (intro conjI allI impI; elim conjE)
  fix e u
  assume ne: "\<forall>msg. e \<noteq> ValueError msg"
  {
    assume a: "validate_ascvd_input E
              (ascvd_data age sex race total_chol hdl sbp on_htn_meds smoker diabetes) = Inl e
           \<or> validate_ascvd_input E
              (ascvd_data age sex race total_chol hdl sbp on_htn_meds smoker diabetes) = Inr u
             \<and> ascvd E (ascvd_data age sex race total_chol hdl sbp on_htn_meds smoker diabetes)
               = Inl e"
    from a show r: "fst (run_ascvd E age sex race total_chol hdl sbp on_htn_meds smoker diabetes
                       patient_id w) = Inl e"
      by (elim disjE conjE)
         (rule run_ascvd_validator_raises [OF _ ne] run_ascvd_calculator_raises [OF _ _ ne];
          assumption)+
    show "usage_log (snd (run_ascvd E age sex race total_chol hdl sbp on_htn_meds smoker diabetes
                          patient_id w)) = usage_log w"
      using run_ascvd_logs [THEN conjunct1, rule_format, OF r] .
  }
  {
    assume a: "validate_bp_input E sbp dbp = Inl e
           \<or> validate_bp_input E sbp dbp = Inr u \<and> bp_category E sbp dbp = Inl e"
    from a show r: "fst (run_bp E sbp dbp patient_id w) = Inl e"
      by (elim disjE conjE)
         (rule run_bp_validator_raises [OF _ ne] run_bp_calculator_raises [OF _ _ ne];
          assumption)+
    show "usage_log (snd (run_bp E sbp dbp patient_id w)) = usage_log w"
      using run_bp_logs [THEN conjunct1, rule_format, OF r] .
  }
  {
    assume a: "validate_ecg_rhythm_input E (PDict (rhythm_data rate regular p_waves_present)) = Inl e
           \<or> validate_ecg_rhythm_input E (PDict (rhythm_data rate regular p_waves_present)) = Inr u
             \<and> validate_ecg_12lead_input E
                 (PDict (lead_data st_elev st_elev_leads qt rr lvh q_waves q_leads t_inversion pr))
               = Inl e"
    show r: "fst (run_ecg E rate regular p_waves_present st_elev st_elev_leads qt rr lvh q_waves
               q_leads t_inversion pr patient_id w) = Inl e"
      by (rule run_ecg_validator_raises [OF a ne])
    show "usage_log (snd (run_ecg E rate regular p_waves_present st_elev st_elev_leads qt rr lvh
                          q_waves q_leads t_inversion pr patient_id w)) = usage_log w"
      using run_ecg_logs [THEN conjunct1, rule_format, OF r] .
  }
next
  fix e u data
  assume ne: "\<forall>msg. e \<noteq> ValueError msg"
     and d: "cha2ds2vasc_data E chf htn age75_flag diabetes stroke vascular age65_74_flag female
             = Inr data"
     and a: "validate_cha2ds2vasc_input E data = Inl e
           \<or> validate_cha2ds2vasc_input E data = Inr u \<and> cha2ds2vasc E data = Inl e"
  from a show r: "fst (run_cha2ds2vasc E chf htn age75_flag diabetes stroke vascular age65_74_flag
                         female patient_id w) = Inl e"
    by (elim disjE conjE)
       (rule run_cha2ds2vasc_validator_raises [OF d _ ne]
             run_cha2ds2vasc_calculator_raises [OF d _ _ ne]; assumption)+
  show "usage_log (snd (run_cha2ds2vasc E chf htn age75_flag diabetes stroke vascular
                          age65_74_flag female patient_id w)) = usage_log w"
    using run_cha2ds2vasc_logs [OF d, THEN conjunct1, rule_format, OF r] .
next
  fix e u u' rhythm findings
  assume ne: "\<forall>msg. e \<noteq> ValueError msg"
     and v1: "validate_ecg_rhythm_input E (PDict (rhythm_data rate regular p_waves_present)) = Inr u"
     and v2: "validate_ecg_12lead_input E
            (PDict (lead_data st_elev st_elev_leads qt rr lvh q_waves q_leads t_inversion pr))
          = Inr u'"
     and a: "interpret_rhythm E rate regular p_waves_present = Inl e
           \<or> interpret_rhythm E rate regular p_waves_present = Inr rhythm
             \<and> interpret_12lead_findings E
                 (PDict (lead_data st_elev st_elev_leads qt rr lvh q_waves q_leads t_inversion pr))
               = Inl e
           \<or> interpret_rhythm E rate regular p_waves_present = Inr rhythm
             \<and> interpret_12lead_findings E
                 (PDict (lead_data st_elev st_elev_leads qt rr lvh q_waves q_leads t_inversion pr))
               = Inr findings
             \<and> interpret_ecg_comprehensive E
                 (PDict (dict_merge (rhythm_data rate regular p_waves_present)
                    (lead_data st_elev st_elev_leads qt rr lvh q_waves q_leads t_inversion pr)))
               = Inl e"
  show r: "fst (run_ecg E rate regular p_waves_present st_elev st_elev_leads qt rr lvh q_waves
               q_leads t_inversion pr patient_id w) = Inl e"
    by (rule run_ecg_engine_raises [OF v1 v2 a ne])
  show "usage_log (snd (run_ecg E rate regular p_waves_present st_elev st_elev_leads qt rr lvh
                          q_waves q_leads t_inversion pr patient_id w)) = usage_log w"
    using run_ecg_logs [THEN conjunct1, rule_format, OF r] .
qed

text \<open>
  In the sample environment: a \<^verbatim>\<open>TypeError\<close> of the ASCVD calculator (cholesterol
  \<^verbatim>\<open>None\<close>) and of the blood-pressure validator (diastolic \<^verbatim>\<open>None\<close>); and, with a
  scorer and a findings function that raise \<^verbatim>\<open>KeyError\<close>, the other two functions.
\<close>

theorem unexpected_fault_propagates_witness:
  "fst (run_ascvd sample_env (PInt 55) (PStr ''Male'') (PStr ''White'') PNone (PInt 50)
          (PInt 120) (PBool False) (PBool True) (PBool True) (PStr ''N/A'') world0)
     = Inl TypeError
   \<and> usage_log (snd (run_ascvd sample_env (PInt 55) (PStr ''Male'') (PStr ''White'') PNone
          (PInt 50) (PInt 120) (PBool False) (PBool True) (PBool True) (PStr ''N/A'') world0))
     = usage_log world0
   \<and> fst (run_bp sample_env (PInt 120) PNone (PStr ''N/A'') world0) = Inl TypeError
   \<and> usage_log (snd (run_bp sample_env (PInt 120) PNone (PStr ''N/A'') world0))
     = usage_log world0
   \<and> fst (run_cha2ds2vasc
            (sample_env\<lparr>cha2ds2vasc := \<lambda>d. Inl KeyError,
                        interpret_12lead_findings := \<lambda>d. Inl KeyError\<rparr>)
            (PBool True) (PBool False) (PBool False) (PBool True) (PBool False) (PBool False)
            (PBool False) (PBool False) (PStr ''N/A'') world0) = Inl KeyError
   \<and> fst (run_ecg
            (sample_env\<lparr>cha2ds2vasc := \<lambda>d. Inl KeyError,
                        interpret_12lead_findings := \<lambda>d. Inl KeyError\<rparr>)
            (PInt 75) (PBool True) (PBool True) (PBool False) (PStr [])
            (PInt 400) (PInt 800) (PBool False) (PBool False) (PStr []) (PBool False) (PInt 160)
            (PStr ''N/A'') world0) = Inl KeyError
   \<and> usage_log (snd (run_ecg
            (sample_env\<lparr>cha2ds2vasc := \<lambda>d. Inl KeyError,
                        interpret_12lead_findings := \<lambda>d. Inl KeyError\<rparr>)
            (PInt 75) (PBool True) (PBool True) (PBool False) (PStr [])
            (PInt 400) (PInt 800) (PBool False) (PBool False) (PStr []) (PBool False) (PInt 160)
            (PStr ''N/A'') world0)) = usage_log world0"
  using unexpected_fault_propagates [where E = sample_env and age = "PInt 55"
          and sex = "PStr ''Male''" and race = "PStr ''White''" and total_chol = PNone
          and hdl = "PInt 50" and sbp = "PInt 120" and on_htn_meds = "PBool False"
          and smoker = "PBool True" and diabetes = "PBool True"
          and patient_id = "PStr ''N/A''" and w = world0 and dbp = PNone
          and chf = "PBool True" and htn = "PBool False" and age75_flag = "PBool False"
          and stroke = "PBool False" and vascular = "PBool False"
          and age65_74_flag = "PBool False" and female = "PBool False"
          and rate = "PInt 75" and regular = "PBool True" and p_waves_present = "PBool True"
          and st_elev = "PBool False" and st_elev_leads = "PStr []" and qt = "PInt 400"
          and rr = "PInt 800" and lvh = "PBool False" and q_waves = "PBool False"
          and q_leads = "PStr []" and t_inversion = "PBool False" and pr = "PInt 160"]
        unexpected_fault_propagates [where
              E = "sample_env\<lparr>cha2ds2vasc := \<lambda>d. Inl KeyError,
                              interpret_12lead_findings := \<lambda>d. Inl KeyError\<rparr>"
          and age = "PInt 55"
          and sex = "PStr ''Male''" and race = "PStr ''White''" and total_chol = PNone
          and hdl = "PInt 50" and sbp = "PInt 120" and on_htn_meds = "PBool False"
          and smoker = "PBool True" and diabetes = "PBool True"
          and patient_id = "PStr ''N/A''" and w = world0 and dbp = PNone
          and chf = "PBool True" and htn = "PBool False" and age75_flag = "PBool False"
          and stroke = "PBool False" and vascular = "PBool False"
          and age65_74_flag = "PBool False" and female = "PBool False"
          and rate = "PInt 75" and regular = "PBool True" and p_waves_present = "PBool True"
          and st_elev = "PBool False" and st_elev_leads = "PStr []" and qt = "PInt 400"
          and rr = "PInt 800" and lvh = "PBool False" and q_waves = "PBool False"
          and q_leads = "PStr []" and t_inversion = "PBool False" and pr = "PInt 160"]
  by (simp add: sample_env_def sample_validate_ascvd_input_def sample_ascvd_def
        sample_validate_bp_input_def sample_validate_cha2ds2vasc_input_def
        sample_validate_ecg_rhythm_input_def sample_validate_ecg_12lead_input_def
        sample_interpret_rhythm_def py_getitem_def ascvd_data_def rhythm_data_def
        lead_data_def cha2ds2vasc_data_def py_int_def)

subsection \<open>The usage log\<close>

text \<open>
  Claim C6 says that every call appends exactly one log line.  A call makes one
  \<^verbatim>\<open>logging.info\<close> call, but the message holds the output text as it is, and the
  summary that \<^verbatim>\<open>run_ecg\<close> returns on success has two newlines: in the sample
  environment a successful \<^verbatim>\<open>run_ecg\<close> adds three lines to an empty \<^verbatim>\<open>usage.log\<close>,
  of which only the first holds the identifier, the tool and the input record.
\<close>

theorem one_log_line_counterexample:
  "fst (run_ecg sample_env (PInt 75) (PBool True) (PBool True) (PBool False) (PStr [])
          (PInt 400) (PInt 800) (PBool False) (PBool False) (PStr []) (PBool False) (PInt 160)
          (PStr ''N/A'') world0)
     = Inr (''Rhythm: Normal sinus rhythm'' @ [CHR 0x0A]
            @ ''Findings: No 12-lead abnormalities detected'' @ [CHR 0x0A]
            @ ''Overall Risk: low'')
   \<and> log_lines world0 = 0
   \<and> log_lines (snd (run_ecg sample_env (PInt 75) (PBool True) (PBool True) (PBool False)
          (PStr []) (PInt 400) (PInt 800) (PBool False) (PBool False) (PStr []) (PBool False)
          (PInt 160) (PStr ''N/A'') world0)) = 3"
  by (simp add: run_ecg_def Let_def try_except_ValueError_def sample_env_def
        sample_validate_ecg_rhythm_input_def sample_validate_ecg_12lead_input_def
        sample_interpret_rhythm_def sample_interpret_12lead_findings_def
        sample_interpret_ecg_comprehensive_def py_getitem_def rhythm_data_def lead_data_def
        dict_merge_def py_str_def log_record_def log_lines_def record_lines_def world0_def
        show_nat.simps digit_char_def show_int_def)

text \<open>
  Claim C6 as amended.  A call of a \<^verbatim>\<open>run_*\<close> function that returns, on the success
  path or after a \<^verbatim>\<open>ValueError\<close>, appends exactly one record to the log (one
  \<^verbatim>\<open>logging.info\<close> call): the time stamp, the first eight characters of a fresh UUID,
  the tool name, the input record, and the output text (on success the text returned, on
  failure \<^verbatim>\<open>Error:\<close> and the text of the exception).  A call that raises appends
  nothing.  The record takes at least as many lines of the file as its output text has.
\<close>

theorem one_log_record_per_call:
  "((\<forall>e. fst (run_ascvd E age sex race total_chol hdl sbp on_htn_meds smoker diabetes patient_id w)
          = Inl e \<longrightarrow>
        usage_log (snd (run_ascvd E age sex race total_chol hdl sbp on_htn_meds smoker diabetes
                          patient_id w)) = usage_log w)
   \<and> (\<forall>text. fst (run_ascvd E age sex race total_chol hdl sbp on_htn_meds smoker diabetes
                     patient_id w) = Inr text \<longrightarrow>
        usage_log (snd (run_ascvd E age sex race total_chol hdl sbp on_htn_meds smoker diabetes
                          patient_id w))
          = usage_log w @ [log_record E ''ascvd''
               (ascvd_data age sex race total_chol hdl sbp on_htn_meds smoker diabetes) text w]
      \<or> (\<exists>msg. text = cross_mark @ '' Input Error: '' @ msg
             \<and> usage_log (snd (run_ascvd E age sex race total_chol hdl sbp on_htn_meds smoker
                                 diabetes patient_id w))
               = usage_log w @ [log_record E ''ascvd''
                   (ascvd_data age sex race total_chol hdl sbp on_htn_meds smoker diabetes)
                   (''Error: '' @ msg) w])))
   \<and> ((\<forall>e. fst (run_bp E sbp dbp patient_id w) = Inl e \<longrightarrow>
        usage_log (snd (run_bp E sbp dbp patient_id w)) = usage_log w)
   \<and> (\<forall>text. fst (run_bp E sbp dbp patient_id w) = Inr text \<longrightarrow>
        usage_log (snd (run_bp E sbp dbp patient_id w))
          = usage_log w @ [log_record E ''bp_category''
               (PDict [(PStr ''sbp'', sbp), (PStr ''dbp'', dbp)]) text w]
      \<or> (\<exists>msg. text = cross_mark @ '' Input Error: '' @ msg
             \<and> usage_log (snd (run_bp E sbp dbp patient_id w))
               = usage_log w @ [log_record E ''bp_category''
                   (PDict [(PStr ''sbp'', sbp), (PStr ''dbp'', dbp)]) (''Error: '' @ msg) w])))
   \<and> (\<forall>data. cha2ds2vasc_data E chf htn age75_flag diabetes stroke vascular age65_74_flag female
             = Inr data \<longrightarrow>
      (\<forall>e. fst (run_cha2ds2vasc E chf htn age75_flag diabetes stroke vascular age65_74_flag female
                  patient_id w) = Inl e \<longrightarrow>
        usage_log (snd (run_cha2ds2vasc E chf htn age75_flag diabetes stroke vascular
                          age65_74_flag female patient_id w)) = usage_log w)
   \<and> (\<forall>text. fst (run_cha2ds2vasc E chf htn age75_flag diabetes stroke vascular age65_74_flag
                     female patient_id w) = Inr text \<longrightarrow>
        usage_log (snd (run_cha2ds2vasc E chf htn age75_flag diabetes stroke vascular
                          age65_74_flag female patient_id w))
          = usage_log w @ [log_record E ''cha2ds2vasc'' data text w]
      \<or> (\<exists>msg. text = cross_mark @ '' Input Error: '' @ msg
             \<and> usage_log (snd (run_cha2ds2vasc E chf htn age75_flag diabetes stroke vascular
                                 age65_74_flag female patient_id w))
               = usage_log w @ [log_record E ''cha2ds2vasc'' data (''Error: '' @ msg) w])))
   \<and> (\<forall>e. cha2ds2vasc_data E chf htn age75_flag diabetes stroke vascular age65_74_flag female
          = Inl e \<longrightarrow>
        run_cha2ds2vasc E chf htn age75_flag diabetes stroke vascular age65_74_flag female
          patient_id w = (Inl e, w))
   \<and> ((\<forall>e. fst (run_ecg E rate regular p_waves_present st_elev st_elev_leads qt rr lvh q_waves
                q_leads t_inversion pr patient_id w) = Inl e \<longrightarrow>
        usage_log (snd (run_ecg E rate regular p_waves_present st_elev st_elev_leads qt rr lvh
                          q_waves q_leads t_inversion pr patient_id w)) = usage_log w)
   \<and> (\<forall>text. fst (run_ecg E rate regular p_waves_present st_elev st_elev_leads qt rr lvh q_waves
                    q_leads t_inversion pr patient_id w) = Inr text \<longrightarrow>
        usage_log (snd (run_ecg E rate regular p_waves_present st_elev st_elev_leads qt rr lvh
                          q_waves q_leads t_inversion pr patient_id w))
          = usage_log w @ [log_record E ''ecg_interpret''
               (PDict (dict_merge (rhythm_data rate regular p_waves_present)
                  (lead_data st_elev st_elev_leads qt rr lvh q_waves q_leads t_inversion pr)))
               text w]
      \<or> (\<exists>msg. text = cross_mark @ '' Input Error: '' @ msg
             \<and> usage_log (snd (run_ecg E rate regular p_waves_present st_elev st_elev_leads qt rr
                                 lvh q_waves q_leads t_inversion pr patient_id w))
               = usage_log w @ [log_record E ''ecg_interpret''
                   (PDict (dict_merge (rhythm_data rate regular p_waves_present)
                      (lead_data st_elev st_elev_leads qt rr lvh q_waves q_leads t_inversion pr)))
                   (''Error: '' @ msg) w])))
   \<and> (\<forall>tool_name inputs out.
        record_lines out \<le> record_lines (log_record E tool_name inputs out w))"
  by (rule conjI, rule run_ascvd_logs, rule conjI, rule run_bp_logs, rule conjI,
      (intro allI impI, erule run_cha2ds2vasc_logs), rule conjI,
      (intro allI impI, erule run_cha2ds2vasc_raises), rule conjI, rule run_ecg_logs,
      (intro allI, rule record_lines_log_record))

text \<open>
  In the sample environment, from an empty log: each function returns its result text
  and leaves one record in the log, which ends with that text.
\<close>

theorem one_log_record_per_call_witness:
  "usage_log (snd (run_ascvd sample_env (PInt 55) (PStr ''Male'') (PStr ''White'') (PInt 200)
          (PInt 50) (PInt 120) (PBool False) (PBool True) (PBool True) (PStr ''N/A'') world0))
     = [log_record sample_env ''ascvd''
          (ascvd_data (PInt 55) (PStr ''Male'') (PStr ''White'') (PInt 200) (PInt 50) (PInt 120)
             (PBool False) (PBool True) (PBool True))
          ''10-Year ASCVD Risk: 20.0% (High)'' world0]
   \<and> usage_log (snd (run_bp sample_env (PInt 120) (PInt 80) (PStr ''N/A'') world0))
     = [log_record sample_env ''bp_category'' (PDict [(PStr ''sbp'', PInt 120), (PStr ''dbp'', PInt 80)])
          ''Blood Pressure Category: Hypertension Stage 1'' world0]
   \<and> log_record sample_env ''bp_category'' (PDict [(PStr ''sbp'', PInt 120), (PStr ''dbp'', PInt 80)])
          ''Blood Pressure Category: Hypertension Stage 1'' world0
     = ''2025-01-01 00:00:00,000 | session=10000000 tool=bp_category inputs={'sbp': 120, 'dbp': 80} outputs=Blood Pressure Category: Hypertension Stage 1''
   \<and> usage_log (snd (run_cha2ds2vasc sample_env (PBool True) (PBool False) (PBool False)
          (PBool True) (PBool False) (PBool False) (PBool False) (PBool False) (PStr ''N/A'')
          world0))
     = [log_record sample_env ''cha2ds2vasc''
          (PDict [(PStr ''chf'', PInt 1), (PStr ''hypertension'', PInt 0),
                  (PStr ''age_ge_75'', PInt 0), (PStr ''diabetes'', PInt 1),
                  (PStr ''stroke'', PInt 0), (PStr ''vascular'', PInt 0),
                  (PStr ''age_65_74'', PInt 0), (PStr ''female'', PInt 0)])
          (''CHA'' @ subscript_two @ ''DS'' @ subscript_two @ ''-VASc Score: 2'') world0]
   \<and> usage_log (snd (run_ecg sample_env (PInt 75) (PBool True) (PBool True)
          (PBool False) (PStr []) (PInt 400) (PInt 800) (PBool False) (PBool False) (PStr [])
          (PBool False) (PInt 160) (PStr ''N/A'') world0))
     = [log_record sample_env ''ecg_interpret''
          (PDict (dict_merge (rhythm_data (PInt 75) (PBool True) (PBool True))
             (lead_data (PBool False) (PStr []) (PInt 400) (PInt 800) (PBool False) (PBool False)
                (PStr []) (PBool False) (PInt 160))))
          (''Rhythm: Normal sinus rhythm'' @ [CHR 0x0A]
            @ ''Findings: No 12-lead abnormalities detected'' @ [CHR 0x0A]
            @ ''Overall Risk: low'') world0]"
proof -
  have empty: "usage_log world0 = []"
    by (simp add: world0_def)
  have data: "cha2ds2vasc_data sample_env (PBool True) (PBool False) (PBool False) (PBool True)
                (PBool False) (PBool False) (PBool False) (PBool False)
              = Inr (PDict [(PStr ''chf'', PInt 1), (PStr ''hypertension'', PInt 0),
                  (PStr ''age_ge_75'', PInt 0), (PStr ''diabetes'', PInt 1),
                  (PStr ''stroke'', PInt 0), (PStr ''vascular'', PInt 0),
                  (PStr ''age_65_74'', PInt 0), (PStr ''female'', PInt 0)])"
    by (simp add: cha2ds2vasc_data_def py_int_def)
  have rec: "log_record sample_env ''bp_category''
               (PDict [(PStr ''sbp'', PInt 120), (PStr ''dbp'', PInt 80)])
               ''Blood Pressure Category: Hypertension Stage 1'' world0
     = ''2025-01-01 00:00:00,000 | session=10000000 tool=bp_category inputs={'sbp': 120, 'dbp': 80} outputs=Blood Pressure Category: Hypertension Stage 1''"
    by (simp add: log_record_def sample_env_def world0_def py_str_def show_int_def
          show_nat.simps digit_char_def)
  note t = one_log_record_per_call [where E = sample_env and age = "PInt 55"
          and sex = "PStr ''Male''" and race = "PStr ''White''" and total_chol = "PInt 200"
          and hdl = "PInt 50" and sbp = "PInt 120" and on_htn_meds = "PBool False"
          and smoker = "PBool True" and diabetes = "PBool True"
          and patient_id = "PStr ''N/A''" and w = world0 and dbp = "PInt 80"
          and chf = "PBool True" and htn = "PBool False" and age75_flag = "PBool False"
          and stroke = "PBool False" and vascular = "PBool False"
          and age65_74_flag = "PBool False" and female = "PBool False"
          and rate = "PInt 75" and regular = "PBool True" and p_waves_present = "PBool True"
          and st_elev = "PBool False" and st_elev_leads = "PStr []" and qt = "PInt 400"
          and rr = "PInt 800" and lvh = "PBool False" and q_waves = "PBool False"
          and q_leads = "PStr []" and t_inversion = "PBool False" and pr = "PInt 160"]
  show ?thesis
    using t rec
    by (simp add: sample_run_ascvd_result sample_run_bp_result sample_run_cha2ds2vasc_result
          sample_run_ecg_result data empty cross_mark_def)
qed

subsection \<open>The PDF report\<close>



end
